theory Spec2Isabelle
  imports Complex_Main "HOL-Library.Product_Lexorder" "HOL-Library.Multiset" "HOL-Library.Word"
begin

section \<open>Errors and raw buffers\<close>

text \<open>
  The C++ sources signal a failed \<^verbatim>\<open>randblas_require\<close> by throwing; an access outside an
  allocation is undefined behaviour and \<^verbatim>\<open>std::vector::reserve\<close> with a negative
  (hence huge unsigned) argument throws \<^verbatim>\<open>std::length_error\<close>.  Each of these outcomes is
  a value of \<open>error\<close>; a function that can fail returns \<open>error + 'a\<close>.
\<close>

datatype error = PreconditionFailed | OutOfBounds | LengthError

text \<open>
  A buffer is the list of its cells; its length is the size of the allocation.  Indices and
  dimensions are \<^verbatim>\<open>int64_t\<close> in the source and \<open>int\<close> here, and a sum of two of them on
  which a test of the source depends is taken as the machine takes it: \<open>is_int64\<close> are the
  values of the type, \<open>wrap64\<close> is the value modulo \<open>2 ^ 64\<close> in that range, and \<open>add64\<close>
  is the sum of two \<^verbatim>\<open>int64_t\<close> in two's complement.  (The language leaves the overflow of
  a signed sum undefined; the compiled sum wraps around.)
\<close>

definition is_int64 :: "int \<Rightarrow> bool" where
  "is_int64 x = (- (2 ^ 63) \<le> x \<and> x < 2 ^ 63)"

definition wrap64 :: "int \<Rightarrow> int" where
  "wrap64 x = (x + 2 ^ 63) mod 2 ^ 64 - 2 ^ 63"

definition add64 :: "int \<Rightarrow> int \<Rightarrow> int" where
  "add64 a b = wrap64 (a + b)"

definition in_range :: "'a list \<Rightarrow> int \<Rightarrow> bool" where
  "in_range xs i = (0 \<le> i \<and> i < int (length xs))"

definition rd :: "'a list \<Rightarrow> int \<Rightarrow> error + 'a" where
  "rd xs i = (if in_range xs i then Inr (xs ! nat i) else Inl OutOfBounds)"

definition wr :: "'a list \<Rightarrow> int \<Rightarrow> 'a \<Rightarrow> error + 'a list" where
  "wr xs i v = (if in_range xs i then Inr (xs[nat i := v]) else Inl OutOfBounds)"

definition bind_err :: "error + 'a \<Rightarrow> ('a \<Rightarrow> error + 'b) \<Rightarrow> error + 'b" where
  "bind_err r f = (case r of Inl e \<Rightarrow> Inl e | Inr x \<Rightarrow> f x)"

definition require :: "bool \<Rightarrow> error + unit" where
  "require c = (if c then Inr () else Inl PreconditionFailed)"

section \<open>Sparse data: \<^verbatim>\<open>sparse_data/coo.hh\<close>\<close>

datatype NonzeroSort = CSC | CSR | None_sort

datatype IndexBase = Zero | One

text \<open>
  \<^verbatim>\<open>struct COOMatrix\<close>.  The three buffer fields are pointers in the source.  The record is
  polymorphic in what stands for a pointer: \<open>'v\<close> for \<^verbatim>\<open>T *\<close> and \<open>'i\<close> for
  \<^verbatim>\<open>int64_t *\<close>.  Functions that only move pointers around and delete what they point to
  (\<open>transpose_coo\<close>) are stated for every such choice, so that equality of two fields is
  equality of the pointers; functions that read or write cells work on the instance where a
  pointer is the list of cells it points to.  The field \<^verbatim>\<open>_sortptr\<close> is never read or written in the sources and is left out.
  The field \<^verbatim>\<open>sort\<close> is called \<open>sort_order\<close> here.
\<close>

record ('v, 'i) COOMatrix =
  n_rows :: int
  n_cols :: int
  index_base :: IndexBase
  own_memory :: bool
  nnz :: int
  vals :: 'v
  rows :: 'i
  cols :: 'i
  sort_order :: NonzeroSort
  can_reserve :: bool

text \<open>The wrapping constructor of \<^verbatim>\<open>COOMatrix\<close> called with \<^verbatim>\<open>compute_sort_type = false\<close>.\<close>

definition COOMatrix_wrap_nosort ::
  "int \<Rightarrow> int \<Rightarrow> int \<Rightarrow> 'v \<Rightarrow> 'i \<Rightarrow> 'i \<Rightarrow> IndexBase \<Rightarrow> ('v, 'i) COOMatrix" where
  "COOMatrix_wrap_nosort nr nc nz vs rs cs ib =
     \<lparr> n_rows = nr, n_cols = nc, index_base = ib, own_memory = False, nnz = nz,
       vals = vs, rows = rs, cols = cs, sort_order = None_sort, can_reserve = True \<rparr>"

text \<open>
  The destructor \<^verbatim>\<open>~COOMatrix\<close>: an owning matrix deletes its three arrays.  The result is
  the set of the value arrays and the set of the index arrays that have been deleted.
\<close>

definition COOMatrix_destroy :: "('v, 'i) COOMatrix \<Rightarrow> 'v set \<times> 'i set" where
  "COOMatrix_destroy M =
     (if own_memory M then ({vals M}, {rows M, cols M}) else ({}, {}))"

text \<open>
  \<^verbatim>\<open>transpose\<close> takes its argument by value.  The structure has no copy constructor of its
  own, so the parameter \<open>S\<close> is a member-wise copy of the matrix of the caller, with the same
  three pointers and the same \<^verbatim>\<open>own_memory\<close>, and it is destroyed when the function
  returns.  The result is the view \<open>St\<close> that is returned and the arrays that the
  destruction of the parameter has deleted.  (The local \<open>St\<close> does not own its arrays, and
  its destruction deletes nothing.)
\<close>

definition transpose_coo ::
  "('v, 'i) COOMatrix \<Rightarrow> ('v, 'i) COOMatrix \<times> ('v set \<times> 'i set)" where
  "transpose_coo S =
     (let srt = (if sort_order S = CSC then CSR
                 else if sort_order S = CSR then CSC
                 else None_sort);
          St = COOMatrix_wrap_nosort (n_rows S) (n_cols S) (nnz S) (vals S) (cols S) (rows S)
                 (index_base S)
      in (St\<lparr> sort_order := srt \<rparr>, COOMatrix_destroy S))"

subsection \<open>Sorting the nonzeros\<close>

type_synonym 'a triple = "int \<times> int \<times> 'a"

text \<open>The comparator \<^verbatim>\<open>sort_func\<close> of \<^verbatim>\<open>sort_coo_data\<close>, capturing the target order.\<close>

definition sort_func :: "NonzeroSort \<Rightarrow> 'a triple \<Rightarrow> 'a triple \<Rightarrow> bool" where
  "sort_func s t1 t2 =
     (if s = CSR then
        (if fst t1 < fst t2 then True
         else if fst t1 > fst t2 then False
         else if fst (snd t1) < fst (snd t2) then True
         else False)
      else
        (if fst (snd t1) < fst (snd t2) then True
         else if fst (snd t1) > fst (snd t2) then False
         else if fst t1 < fst t2 then True
         else False))"

text \<open>
  \<^verbatim>\<open>std::sort\<close> with a comparator.  The library leaves the relative order of elements
  that the comparator does not separate unspecified; the model is the insertion sort that
  keeps them in their input order.  Theorems below that depend on the order of the result
  assume that no two nonzeros share a coordinate, so that they hold for every conforming
  \<^verbatim>\<open>std::sort\<close>.
\<close>

fun insert_by :: "('t \<Rightarrow> 't \<Rightarrow> bool) \<Rightarrow> 't \<Rightarrow> 't list \<Rightarrow> 't list" where
  "insert_by lt x [] = [x]"
| "insert_by lt x (y # ys) = (if lt y x then y # insert_by lt x ys else x # y # ys)"

definition std_sort :: "('t \<Rightarrow> 't \<Rightarrow> bool) \<Rightarrow> 't list \<Rightarrow> 't list" where
  "std_sort lt xs = foldr (insert_by lt) xs []"

text \<open>
  \<^verbatim>\<open>sort_coo_data(s, nnz, vals, rows, cols)\<close>: pack the first \<open>nnz\<close> cells of the three
  arrays into triples \<open>(row, col, val)\<close>, sort, unpack into the same cells.
\<close>

definition sort_coo_arrays ::
  "NonzeroSort \<Rightarrow> int \<Rightarrow> 'a list \<Rightarrow> int list \<Rightarrow> int list
     \<Rightarrow> error + ('a list \<times> int list \<times> int list)" where
  "sort_coo_arrays s nz vs rs cs =
     (if s = None_sort then Inr (vs, rs, cs)
      else if nz < 0 then Inl LengthError
      else if nat nz > length rs \<or> nat nz > length cs \<or> nat nz > length vs then Inl OutOfBounds
      else
        (let nonzeros = map (\<lambda>ell. (rs ! ell, cs ! ell, vs ! ell)) [0..<nat nz];
             sorted_nz = std_sort (sort_func s) nonzeros
         in Inr (map (\<lambda>t. snd (snd t)) sorted_nz @ drop (nat nz) vs,
                 map fst sorted_nz @ drop (nat nz) rs,
                 map (\<lambda>t. fst (snd t)) sorted_nz @ drop (nat nz) cs)))"

text \<open>\<^verbatim>\<open>sort_coo_data(s, spmat)\<close>: sort the arrays of the matrix, then record \<open>s\<close>.\<close>

definition sort_coo_data ::
  "NonzeroSort \<Rightarrow> ('a list, int list) COOMatrix \<Rightarrow> error + ('a list, int list) COOMatrix" where
  "sort_coo_data s spmat =
     bind_err (sort_coo_arrays s (nnz spmat) (vals spmat) (rows spmat) (cols spmat))
       (\<lambda>(vs, rs, cs). Inr (spmat\<lparr> vals := vs, rows := rs, cols := cs, sort_order := s \<rparr>))"

subsection \<open>Applying a COO matrix from the left\<close>

datatype Layout = ColMajor | RowMajor

datatype Op = NoTrans | Trans

text \<open>
  \<^verbatim>\<open>set_filtered_colptr\<close>.  The inner loop \<^verbatim>\<open>for (j = prev_col + 1; j <= limit; ++j)
  new_colptr[j - col_start] = ell\<close> is \<open>set_colptr_range\<close>; the loop over \<open>ell\<close> carries
  \<open>prev_col\<close> and the array.
\<close>

function set_colptr_range :: "int \<Rightarrow> int \<Rightarrow> int \<Rightarrow> int \<Rightarrow> int list \<Rightarrow> error + int list" where
  "set_colptr_range j limit col_start ell new_colptr =
     (if j \<le> limit then
        (case wr new_colptr (j - col_start) ell of
           Inl e \<Rightarrow> Inl e
         | Inr cp \<Rightarrow> set_colptr_range (j + 1) limit col_start ell cp)
      else Inr new_colptr)"
  by pat_completeness auto
termination
  by (relation "measure (\<lambda>(j, limit, col_start, ell, cp). nat (limit + 1 - j))") auto

declare set_colptr_range.simps [simp del]

function set_filtered_colptr_loop ::
  "int \<Rightarrow> int list \<Rightarrow> int \<Rightarrow> int \<Rightarrow> int \<Rightarrow> int \<Rightarrow> int list \<Rightarrow> error + int list" where
  "set_filtered_colptr_loop nz colidxs col_start col_end ell prev_col new_colptr =
     (if ell < nz then
        (case rd colidxs ell of
           Inl e \<Rightarrow> Inl e
         | Inr curr_col \<Rightarrow>
             if curr_col < col_start
             then set_filtered_colptr_loop nz colidxs col_start col_end (ell + 1) prev_col new_colptr
             else
               (case set_colptr_range (prev_col + 1) (min curr_col col_end) col_start ell new_colptr of
                  Inl e \<Rightarrow> Inl e
                | Inr cp \<Rightarrow>
                    set_filtered_colptr_loop nz colidxs col_start col_end (ell + 1) curr_col cp))
      else Inr new_colptr)"
  by pat_completeness auto
termination
  by (relation "measure (\<lambda>(nz, colidxs, col_start, col_end, ell, prev_col, cp). nat (nz - ell))") auto

declare set_filtered_colptr_loop.simps [simp del]

definition set_filtered_colptr ::
  "int \<Rightarrow> int list \<Rightarrow> int \<Rightarrow> int \<Rightarrow> int list \<Rightarrow> error + int list" where
  "set_filtered_colptr nz colidxs col_start col_end new_colptr =
     set_filtered_colptr_loop nz colidxs col_start col_end 0 (col_start - 1) new_colptr"

text \<open>
  \<^verbatim>\<open>set_filtered_csc_from_cscoo\<close>.  The state of the two loops is
  \<open>(new_vals, new_rowidxs, new_nnz)\<close>.  \<open>csc_col_loop\<close> is the loop over \<open>k\<close> for one column:
  \<^verbatim>\<open>continue\<close> goes on with \<open>k + 1\<close>, \<^verbatim>\<open>break\<close> returns the state.  The bound
  \<^verbatim>\<open>new_colptr[j+1]\<close> is read by \<open>csc_cols_loop\<close> right after \<^verbatim>\<open>new_colptr[j]\<close>; the source
  reads it before the first and after every iteration, from an array that the loop does not
  write.
\<close>

function csc_col_loop ::
  "'a list \<Rightarrow> int list \<Rightarrow> int \<Rightarrow> int \<Rightarrow> int \<Rightarrow> int \<Rightarrow> 'a list \<times> int list \<times> int
     \<Rightarrow> error + ('a list \<times> int list \<times> int)" where
  "csc_col_loop vs rowidxs row_start row_end k hi st =
     (if k < hi then
        (case rd rowidxs k of
           Inl e \<Rightarrow> Inl e
         | Inr i \<Rightarrow>
             if i < row_start then csc_col_loop vs rowidxs row_start row_end (k + 1) hi st
             else if i \<ge> row_end then Inr st
             else
               (case st of (new_vals, new_rowidxs, new_nnz) \<Rightarrow>
                  (case rd vs k of
                     Inl e \<Rightarrow> Inl e
                   | Inr v \<Rightarrow>
                       (case wr new_vals new_nnz v of
                          Inl e \<Rightarrow> Inl e
                        | Inr nv \<Rightarrow>
                            (case wr new_rowidxs new_nnz (i - row_start) of
                               Inl e \<Rightarrow> Inl e
                             | Inr nr \<Rightarrow>
                                 csc_col_loop vs rowidxs row_start row_end (k + 1) hi
                                   (nv, nr, new_nnz + 1))))))
      else Inr st)"
  by pat_completeness auto
termination
  by (relation "measure (\<lambda>(vs, rowidxs, row_start, row_end, k, hi, st). nat (hi - k))") auto

declare csc_col_loop.simps [simp del]

function csc_cols_loop ::
  "'a list \<Rightarrow> int list \<Rightarrow> int \<Rightarrow> int \<Rightarrow> int list \<Rightarrow> int \<Rightarrow> int \<Rightarrow> 'a list \<times> int list \<times> int
     \<Rightarrow> error + ('a list \<times> int list \<times> int)" where
  "csc_cols_loop vs rowidxs row_start row_end new_colptr width j st =
     (if j < width then
        (case rd new_colptr j of
           Inl e \<Rightarrow> Inl e
         | Inr lo \<Rightarrow>
             (case rd new_colptr (j + 1) of
                Inl e \<Rightarrow> Inl e
              | Inr hi \<Rightarrow>
                  (case csc_col_loop vs rowidxs row_start row_end lo hi st of
                     Inl e \<Rightarrow> Inl e
                   | Inr st' \<Rightarrow>
                       csc_cols_loop vs rowidxs row_start row_end new_colptr width (j + 1) st')))
      else Inr st)"
  by pat_completeness auto
termination
  by (relation "measure (\<lambda>(vs, rowidxs, row_start, row_end, cp, width, j, st). nat (width - j))") auto

declare csc_cols_loop.simps [simp del]

text \<open>The result is the three output arrays and the returned \<^verbatim>\<open>new_nnz\<close>.\<close>

definition set_filtered_csc_from_cscoo ::
  "'a list \<Rightarrow> int list \<Rightarrow> int list \<Rightarrow> int \<Rightarrow> int \<Rightarrow> int \<Rightarrow> int \<Rightarrow> int
     \<Rightarrow> 'a list \<Rightarrow> int list \<Rightarrow> int list
     \<Rightarrow> error + ('a list \<times> int list \<times> int list \<times> int)" where
  "set_filtered_csc_from_cscoo vs rowidxs colidxs nz col_start col_end row_start row_end
       new_vals new_rowidxs new_colptr =
     (case set_filtered_colptr nz colidxs col_start col_end new_colptr of
        Inl e \<Rightarrow> Inl e
      | Inr cp \<Rightarrow>
          (case csc_cols_loop vs rowidxs row_start row_end cp (col_end - col_start) 0
                  (new_vals, new_rowidxs, 0) of
             Inl e \<Rightarrow> Inl e
           | Inr (nv, nr, new_nnz) \<Rightarrow> Inr (nv, nr, cp, new_nnz)))"

text \<open>
  \<^verbatim>\<open>apply_csc_to_vector_from_left\<close>.  The pointers \<open>v\<close> and \<open>Sv\<close> point into the buffers of
  \<open>A\<close> and \<open>B\<close>; they are a buffer and the offset of the pointer in it.  The index \<open>i\<close> into
  the nonzeros runs on from one column to the next.  The result is the buffer of \<open>Sv\<close>.
\<close>

function csc_axpy_col ::
  "'a::semiring_0 \<Rightarrow> 'a list \<Rightarrow> int list \<Rightarrow> int \<Rightarrow> int \<Rightarrow> int \<Rightarrow> int \<Rightarrow> 'a list
     \<Rightarrow> error + ('a list \<times> int)" where
  "csc_axpy_col scale vs rowidxs off_Sv incSv hi i Sv =
     (if i < hi then
        (case rd rowidxs i of
           Inl e \<Rightarrow> Inl e
         | Inr row \<Rightarrow>
             (case rd vs i of
                Inl e \<Rightarrow> Inl e
              | Inr x \<Rightarrow>
                  (case rd Sv (off_Sv + row * incSv) of
                     Inl e \<Rightarrow> Inl e
                   | Inr old \<Rightarrow>
                       (case wr Sv (off_Sv + row * incSv) (old + x * scale) of
                          Inl e \<Rightarrow> Inl e
                        | Inr Sv' \<Rightarrow>
                            csc_axpy_col scale vs rowidxs off_Sv incSv hi (i + 1) Sv'))))
      else Inr (Sv, i))"
  by pat_completeness auto
termination
  by (relation "measure (\<lambda>(scale, vs, rowidxs, off_Sv, incSv, hi, i, Sv). nat (hi - i))") auto

declare csc_axpy_col.simps [simp del]

function apply_csc_loop ::
  "'a::semiring_0 list \<Rightarrow> int \<Rightarrow> int \<Rightarrow> int \<Rightarrow> int \<Rightarrow> int \<Rightarrow> 'a list \<Rightarrow> int list \<Rightarrow> int list
     \<Rightarrow> int \<Rightarrow> int \<Rightarrow> 'a list \<Rightarrow> error + 'a list" where
  "apply_csc_loop v off_v incv off_Sv incSv ncols vs rowidxs colptr c i Sv =
     (if c < ncols then
        (case rd v (off_v + c * incv) of
           Inl e \<Rightarrow> Inl e
         | Inr scale \<Rightarrow>
             (case rd colptr (c + 1) of
                Inl e \<Rightarrow> Inl e
              | Inr hi \<Rightarrow>
                  (case csc_axpy_col scale vs rowidxs off_Sv incSv hi i Sv of
                     Inl e \<Rightarrow> Inl e
                   | Inr (Sv', i') \<Rightarrow>
                       apply_csc_loop v off_v incv off_Sv incSv ncols vs rowidxs colptr
                         (c + 1) i' Sv')))
      else Inr Sv)"
  by pat_completeness auto
termination
  by (relation "measure (\<lambda>(v, off_v, incv, off_Sv, incSv, ncols, vs, rowidxs, colptr, c, i, Sv).
                  nat (ncols - c))") auto

declare apply_csc_loop.simps [simp del]

definition apply_csc_to_vector_from_left ::
  "'a::semiring_0 list \<Rightarrow> int \<Rightarrow> int \<Rightarrow> 'a list \<Rightarrow> int \<Rightarrow> int \<Rightarrow> int
     \<Rightarrow> 'a list \<Rightarrow> int list \<Rightarrow> int list \<Rightarrow> error + 'a list" where
  "apply_csc_to_vector_from_left v off_v incv Sv off_Sv incSv ncols vs rowidxs colptr =
     apply_csc_loop v off_v incv off_Sv incSv ncols vs rowidxs colptr 0 0 Sv"


text \<open>
  \<^verbatim>\<open>std::vector<T> v(n, x)\<close>: a negative \<open>n\<close> converts to a size beyond \<^verbatim>\<open>max_size()\<close>,
  and the constructor throws.
\<close>

definition vector_alloc :: "int \<Rightarrow> 'a \<Rightarrow> error + 'a list" where
  "vector_alloc n x = (if n < 0 then Inl LengthError else Inr (replicate (nat n) x))"

text \<open>\<^verbatim>\<open>blas::scal(n, alpha, x, 1)\<close>: scale the first \<open>n\<close> cells of \<open>x\<close>; nothing for \<open>n \<le> 0\<close>.\<close>

definition scal :: "int \<Rightarrow> 'a::semiring_0 \<Rightarrow> 'a list \<Rightarrow> 'a list" where
  "scal n alpha x = map (\<lambda>v. alpha * v) (take (nat n) x) @ drop (nat n) x"

text \<open>
  Step 3 of \<^verbatim>\<open>apply_coo_left\<close>: the loop over the \<open>n\<close> columns of \<open>A\<close> and \<open>B\<close>.  The source
  runs it as an OpenMP \<^verbatim>\<open>parallel for\<close>; the iterations are taken in order of \<open>k\<close>.
\<close>

function apply_cols_loop ::
  "int \<Rightarrow> int \<Rightarrow> int \<Rightarrow> int \<Rightarrow> int \<Rightarrow> int \<Rightarrow> 'a::semiring_0 list \<Rightarrow> 'a list \<Rightarrow> int list \<Rightarrow> int list
     \<Rightarrow> int \<Rightarrow> 'a list \<Rightarrow> error + 'a list" where
  "apply_cols_loop n m A_inter A_intra B_inter B_intra A S_vals S_rows S_colptr k B =
     (if k < n then
        (case apply_csc_to_vector_from_left A (A_inter * k) A_intra B (B_inter * k) B_intra
                m S_vals S_rows S_colptr of
           Inl e \<Rightarrow> Inl e
         | Inr B' \<Rightarrow>
             apply_cols_loop n m A_inter A_intra B_inter B_intra A S_vals S_rows S_colptr
               (k + 1) B')
      else Inr B)"
  by pat_completeness auto
termination
  by (relation "measure (\<lambda>(n, m, A_inter, A_intra, B_inter, B_intra, A, S_vals, S_rows, S_colptr,
                  k, B). nat (n - k))") auto

declare apply_cols_loop.simps [simp del]

text \<open>
  Steps 2 and 3 of \<^verbatim>\<open>apply_coo_left\<close>, the part of the function that runs when \<open>S0\<close> is
  flagged as column-sorted.  It reads \<open>S0\<close> and returns the buffer of \<open>B\<close>.
\<close>

definition apply_coo_left_csc ::
  "'a::semiring_0 \<Rightarrow> Layout \<Rightarrow> Layout \<Rightarrow> int \<Rightarrow> int \<Rightarrow> int \<Rightarrow> ('a list, int list) COOMatrix
     \<Rightarrow> int \<Rightarrow> int \<Rightarrow> 'a list \<Rightarrow> int \<Rightarrow> 'a list \<Rightarrow> int \<Rightarrow> error + 'a list" where
  "apply_coo_left_csc alpha layout_A layout_B d n m S0 row_offset col_offset A lda B ldb =
     (let S0_nnz = nnz S0 in
      (case vector_alloc S0_nnz 0 of Inl e \<Rightarrow> Inl e | Inr S_rows0 \<Rightarrow>
      (case vector_alloc m 0 of Inl e \<Rightarrow> Inl e | Inr S_colptr0 \<Rightarrow>
      (case vector_alloc S0_nnz 0 of Inl e \<Rightarrow> Inl e | Inr S_vals0 \<Rightarrow>
      (case set_filtered_csc_from_cscoo (vals S0) (rows S0) (cols S0) (nnz S0)
             col_offset (col_offset + m) row_offset (row_offset + d)
             S_vals0 S_rows0 S_colptr0 of
        Inl e \<Rightarrow> Inl e
      | Inr (S_vals1, S_rows, S_colptr, S_nnz) \<Rightarrow>
          (let S_vals = scal S_nnz alpha S_vals1;
               A_inter_col_stride = (if layout_A = ColMajor then lda else 1);
               A_intra_col_stride = (if layout_A = ColMajor then 1 else lda);
               B_inter_col_stride = (if layout_B = ColMajor then ldb else 1);
               B_intra_col_stride = (if layout_B = ColMajor then 1 else ldb)
           in apply_cols_loop n m A_inter_col_stride A_intra_col_stride
                B_inter_col_stride B_intra_col_stride A S_vals S_rows S_colptr 0 B))))))"

text \<open>
  Modelled from the spec: \<^verbatim>\<open>apply_cscoo_submat_to_vector_from_left\<close>, which
  \<^verbatim>\<open>apply_coo_left\<close> calls when \<open>S0\<close> is not flagged as column-sorted and which is not
  defined in the sources at hand.  It takes the arguments of \<^verbatim>\<open>apply_coo_left\<close> without
  \<open>alpha\<close>; section 4.6 of the specification describes the sparse path as the extraction of
  the window from the column-sorted coordinates followed by the scatter-accumulate.  It is
  modelled as steps 2 and 3 with no rescaling.  \<open>apply_coo_left\<close> below takes the kernel it
  calls as its first argument, and the theorems about it are stated for every kernel.
\<close>

definition apply_cscoo_submat_to_vector_from_left ::
  "Layout \<Rightarrow> Layout \<Rightarrow> int \<Rightarrow> int \<Rightarrow> int \<Rightarrow> ('a::semiring_1 list, int list) COOMatrix
     \<Rightarrow> int \<Rightarrow> int \<Rightarrow> 'a list \<Rightarrow> int \<Rightarrow> 'a list \<Rightarrow> int \<Rightarrow> error + 'a list" where
  "apply_cscoo_submat_to_vector_from_left layout_A layout_B d n m S0 row_offset col_offset
       A lda B ldb =
     apply_coo_left_csc 1 layout_A layout_B d n m S0 row_offset col_offset A lda B ldb"

text \<open>
  \<^verbatim>\<open>apply_coo_left\<close>.  \<open>S0\<close> is passed by reference and sorted in place, so the result is
  the matrix \<open>S0\<close> and the buffer of \<open>B\<close> on return.
\<close>

definition apply_coo_left ::
  "(Layout \<Rightarrow> Layout \<Rightarrow> int \<Rightarrow> int \<Rightarrow> int \<Rightarrow> ('a list, int list) COOMatrix
      \<Rightarrow> int \<Rightarrow> int \<Rightarrow> 'a list \<Rightarrow> int \<Rightarrow> 'a list \<Rightarrow> int \<Rightarrow> error + 'a list)
     \<Rightarrow> 'a::semiring_0 \<Rightarrow> Layout \<Rightarrow> Layout \<Rightarrow> int \<Rightarrow> int \<Rightarrow> int \<Rightarrow> ('a list, int list) COOMatrix
     \<Rightarrow> int \<Rightarrow> int \<Rightarrow> 'a list \<Rightarrow> int \<Rightarrow> 'a list \<Rightarrow> int
     \<Rightarrow> error + (('a list, int list) COOMatrix \<times> 'a list)" where
  "apply_coo_left kern alpha layout_A layout_B d n m S0 row_offset col_offset A lda B ldb =
     (case require (index_base S0 = Zero) of Inl e \<Rightarrow> Inl e | Inr u \<Rightarrow>
      if sort_order S0 \<noteq> CSC then
        (let orig_sort = sort_order S0 in
         (case sort_coo_data CSC S0 of Inl e \<Rightarrow> Inl e | Inr S1 \<Rightarrow>
         (case kern layout_A layout_B d n m S1 row_offset col_offset A lda B ldb of
           Inl e \<Rightarrow> Inl e
         | Inr B' \<Rightarrow>
             (case sort_coo_data orig_sort S1 of Inl e \<Rightarrow> Inl e | Inr S2 \<Rightarrow> Inr (S2, B')))))
      else
        (case apply_coo_left_csc alpha layout_A layout_B d n m S0 row_offset col_offset
                A lda B ldb of
           Inl e \<Rightarrow> Inl e
         | Inr B' \<Rightarrow> Inr (S0, B')))"


section \<open>Sparse data: \<^verbatim>\<open>sparse_data/csr.hh\<close>\<close>

text \<open>
  \<^verbatim>\<open>new T[n]\<close> returns cells with indeterminate contents.  The contents are a parameter of
  the model: a function \<open>g\<close> from the index of a cell to what the cell holds on allocation.
  A negative \<open>n\<close> makes \<^verbatim>\<open>new\<close> throw.
\<close>

definition new_array :: "int \<Rightarrow> (nat \<Rightarrow> 'a) \<Rightarrow> error + 'a list" where
  "new_array n g = (if n < 0 then Inl LengthError else Inr (map g [0..<nat n]))"

text \<open>\<^verbatim>\<open>COOMatrix(n_rows, n_cols, index_base)\<close>: the owning, empty matrix.  A null pointer is
  the empty buffer.\<close>

definition COOMatrix_empty :: "int \<Rightarrow> int \<Rightarrow> IndexBase \<Rightarrow> ('a list, int list) COOMatrix" where
  "COOMatrix_empty nr nc ib =
     \<lparr> n_rows = nr, n_cols = nc, index_base = ib, own_memory = True, nnz = 0,
       vals = [], rows = [], cols = [], sort_order = None_sort, can_reserve = True \<rparr>"

text \<open>\<^verbatim>\<open>COOMatrix::reserve(nnz)\<close>; \<open>gv\<close>, \<open>gr\<close>, \<open>gc\<close> are the contents of the three fresh
  arrays.\<close>

definition coo_reserve ::
  "('a list, int list) COOMatrix \<Rightarrow> int \<Rightarrow> (nat \<Rightarrow> 'a) \<Rightarrow> (nat \<Rightarrow> int) \<Rightarrow> (nat \<Rightarrow> int)
     \<Rightarrow> error + ('a list, int list) COOMatrix" where
  "coo_reserve M nz gv gr gc =
     (case require (can_reserve M) of Inl e \<Rightarrow> Inl e | Inr u \<Rightarrow>
     (case require (own_memory M) of Inl e \<Rightarrow> Inl e | Inr u \<Rightarrow>
     (case new_array nz gv of Inl e \<Rightarrow> Inl e | Inr vs \<Rightarrow>
     (case new_array nz gr of Inl e \<Rightarrow> Inl e | Inr rs \<Rightarrow>
     (case new_array nz gc of Inl e \<Rightarrow> Inl e | Inr cs \<Rightarrow>
        Inr (M\<lparr> nnz := nz, vals := vs, rows := rs, cols := cs, can_reserve := False \<rparr>))))))"

text \<open>\<^verbatim>\<open>struct CSRMatrix\<close>; its fields are prefixed with \<open>csr_\<close> where the name is also a
  field of \<open>COOMatrix\<close>.\<close>

record 'a CSRMatrix =
  csr_n_rows :: int
  csr_n_cols :: int
  csr_index_base :: IndexBase
  csr_own_memory :: bool
  csr_nnz :: int
  csr_vals :: "'a list"
  rowptr :: "int list"
  colidxs :: "int list"
  csr_can_reserve :: bool

definition CSRMatrix_empty :: "int \<Rightarrow> int \<Rightarrow> IndexBase \<Rightarrow> 'a CSRMatrix" where
  "CSRMatrix_empty nr nc ib =
     \<lparr> csr_n_rows = nr, csr_n_cols = nc, csr_index_base = ib, csr_own_memory = True,
       csr_nnz = 0, csr_vals = [], rowptr = [], colidxs = [], csr_can_reserve = True \<rparr>"

text \<open>The wrapping constructor \<^verbatim>\<open>CSRMatrix(n_rows, n_cols, nnz, vals, rowptr, colidxs,
  index_base)\<close>.\<close>

definition CSRMatrix_wrap ::
  "int \<Rightarrow> int \<Rightarrow> int \<Rightarrow> 'a list \<Rightarrow> int list \<Rightarrow> int list \<Rightarrow> IndexBase \<Rightarrow> 'a CSRMatrix" where
  "CSRMatrix_wrap nr nc nz vs rp ci ib =
     \<lparr> csr_n_rows = nr, csr_n_cols = nc, csr_index_base = ib, csr_own_memory = False,
       csr_nnz = nz, csr_vals = vs, rowptr = rp, colidxs = ci, csr_can_reserve = True \<rparr>"

text \<open>\<^verbatim>\<open>CSRMatrix::reserve(nnz)\<close>; \<open>gp\<close>, \<open>gc\<close>, \<open>gv\<close> are the contents of the fresh
  \<open>rowptr\<close>, \<open>colidxs\<close> and \<open>vals\<close>.\<close>

definition csr_reserve ::
  "'a CSRMatrix \<Rightarrow> int \<Rightarrow> (nat \<Rightarrow> int) \<Rightarrow> (nat \<Rightarrow> int) \<Rightarrow> (nat \<Rightarrow> 'a) \<Rightarrow> error + 'a CSRMatrix" where
  "csr_reserve M nz gp gc gv =
     (case require (csr_can_reserve M) of Inl e \<Rightarrow> Inl e | Inr u \<Rightarrow>
     (case require (csr_own_memory M) of Inl e \<Rightarrow> Inl e | Inr u \<Rightarrow>
     (case new_array (csr_n_rows M + 1) gp of Inl e \<Rightarrow> Inl e | Inr rp \<Rightarrow>
     (case new_array nz gc of Inl e \<Rightarrow> Inl e | Inr ci \<Rightarrow>
     (case new_array nz gv of Inl e \<Rightarrow> Inl e | Inr vs \<Rightarrow>
        Inr (M\<lparr> csr_nnz := nz, rowptr := rp, colidxs := ci, csr_vals := vs,
                csr_can_reserve := False \<rparr>))))))"

text \<open>
  \<^verbatim>\<open>coo_to_csr\<close>.  \<open>coo_to_csr_row\<close> is the loop \<^verbatim>\<open>while (coo.rows[ell] == i)\<close> for one
  row; its state is \<open>(colidxs, vals, ell)\<close> of the CSR matrix.  The condition reads
  \<^verbatim>\<open>coo.rows[ell]\<close> with no test of \<open>ell\<close> against \<open>nnz\<close>.
\<close>

function coo_to_csr_row ::
  "('a list, int list) COOMatrix \<Rightarrow> int \<Rightarrow> int list \<times> 'a list \<times> int
     \<Rightarrow> error + (int list \<times> 'a list \<times> int)" where
  "coo_to_csr_row coo i st =
     (case st of (ci, vs, ell) \<Rightarrow>
        (case rd (rows coo) ell of
           Inl e \<Rightarrow> Inl e
         | Inr r \<Rightarrow>
             if r = i then
               (case rd (cols coo) ell of
                  Inl e \<Rightarrow> Inl e
                | Inr c \<Rightarrow>
                    (case wr ci ell c of
                       Inl e \<Rightarrow> Inl e
                     | Inr ci' \<Rightarrow>
                         (case rd (vals coo) ell of
                            Inl e \<Rightarrow> Inl e
                          | Inr v \<Rightarrow>
                              (case wr vs ell v of
                                 Inl e \<Rightarrow> Inl e
                               | Inr vs' \<Rightarrow> coo_to_csr_row coo i (ci', vs', ell + 1)))))
             else Inr st))"
  by pat_completeness auto
termination
  by (relation "measure (\<lambda>(coo, i, ci, vs, ell). nat (int (length (rows coo)) - ell))")
     (auto simp: rd_def in_range_def split: if_splits)

declare coo_to_csr_row.simps [simp del]

text \<open>The loop over the rows; after the inner loop the source stores \<^verbatim>\<open>csr.rowptr[ell] =
  ell\<close>.\<close>

function coo_to_csr_rows ::
  "('a list, int list) COOMatrix \<Rightarrow> int \<Rightarrow> int list \<times> int list \<times> 'a list \<times> int
     \<Rightarrow> error + (int list \<times> int list \<times> 'a list \<times> int)" where
  "coo_to_csr_rows coo i st =
     (case st of (rp, ci, vs, ell) \<Rightarrow>
        if i < n_rows coo then
          (case coo_to_csr_row coo i (ci, vs, ell) of
             Inl e \<Rightarrow> Inl e
           | Inr (ci', vs', ell') \<Rightarrow>
               (case wr rp ell' ell' of
                  Inl e \<Rightarrow> Inl e
                | Inr rp' \<Rightarrow> coo_to_csr_rows coo (i + 1) (rp', ci', vs', ell')))
        else Inr st)"
  by pat_completeness auto
termination
  by (relation "measure (\<lambda>(coo, i, st). nat (n_rows coo - i))") auto

declare coo_to_csr_rows.simps [simp del]

text \<open>Both arguments are references and both are written: the result is the pair of them.\<close>

definition coo_to_csr ::
  "(nat \<Rightarrow> int) \<Rightarrow> (nat \<Rightarrow> int) \<Rightarrow> (nat \<Rightarrow> 'a) \<Rightarrow> ('a list, int list) COOMatrix \<Rightarrow> 'a CSRMatrix
     \<Rightarrow> error + (('a list, int list) COOMatrix \<times> 'a CSRMatrix)" where
  "coo_to_csr gp gc gv coo csr =
     (case sort_coo_data CSR coo of Inl e \<Rightarrow> Inl e | Inr coo1 \<Rightarrow>
     (case csr_reserve csr (nnz coo1) gp gc gv of Inl e \<Rightarrow> Inl e | Inr csr1 \<Rightarrow>
     (case wr (rowptr csr1) 0 0 of Inl e \<Rightarrow> Inl e | Inr rp0 \<Rightarrow>
     (case coo_to_csr_rows coo1 0 (rp0, colidxs csr1, csr_vals csr1, 0) of
        Inl e \<Rightarrow> Inl e
      | Inr (rp, ci, vs, ell) \<Rightarrow>
          Inr (coo1, csr1\<lparr> rowptr := rp, colidxs := ci, csr_vals := vs \<rparr>)))))"

text \<open>
  \<^verbatim>\<open>csr_to_coo\<close>.  \<open>csr_to_coo_row\<close> is the loop over \<open>j\<close> for row \<open>i\<close>; its state is
  \<open>(vals, rows, cols)\<close> of the COO matrix.  The source stores at index \<open>ell\<close>, which it
  initialises to 0 and never changes, and stores \<open>j\<close> as the column.  The bound
  \<^verbatim>\<open>csr.rowptr[i+1]\<close> is read before every iteration, from an array that is not written.
\<close>

function csr_to_coo_row ::
  "'a CSRMatrix \<Rightarrow> int \<Rightarrow> int \<Rightarrow> int \<Rightarrow> int \<Rightarrow> 'a list \<times> int list \<times> int list
     \<Rightarrow> error + ('a list \<times> int list \<times> int list)" where
  "csr_to_coo_row csr ell i j hi st =
     (case st of (vs, rs, cs) \<Rightarrow>
        if j < hi then
          (case rd (csr_vals csr) ell of
             Inl e \<Rightarrow> Inl e
           | Inr v \<Rightarrow>
               (case wr vs ell v of
                  Inl e \<Rightarrow> Inl e
                | Inr vs' \<Rightarrow>
                    (case wr rs ell i of
                       Inl e \<Rightarrow> Inl e
                     | Inr rs' \<Rightarrow>
                         (case wr cs ell j of
                            Inl e \<Rightarrow> Inl e
                          | Inr cs' \<Rightarrow> csr_to_coo_row csr ell i (j + 1) hi (vs', rs', cs')))))
        else Inr st)"
  by pat_completeness auto
termination
  by (relation "measure (\<lambda>(csr, ell, i, j, hi, st). nat (hi - j))") auto

declare csr_to_coo_row.simps [simp del]

function csr_to_coo_rows ::
  "'a CSRMatrix \<Rightarrow> int \<Rightarrow> int \<Rightarrow> 'a list \<times> int list \<times> int list
     \<Rightarrow> error + ('a list \<times> int list \<times> int list)" where
  "csr_to_coo_rows csr ell i st =
     (if i < csr_n_rows csr then
        (case rd (rowptr csr) i of
           Inl e \<Rightarrow> Inl e
         | Inr lo \<Rightarrow>
             (case rd (rowptr csr) (i + 1) of
                Inl e \<Rightarrow> Inl e
              | Inr hi \<Rightarrow>
                  (case csr_to_coo_row csr ell i lo hi st of
                     Inl e \<Rightarrow> Inl e
                   | Inr st' \<Rightarrow> csr_to_coo_rows csr ell (i + 1) st')))
      else Inr st)"
  by pat_completeness auto
termination
  by (relation "measure (\<lambda>(csr, ell, i, st). nat (csr_n_rows csr - i))") auto

declare csr_to_coo_rows.simps [simp del]

definition csr_to_coo ::
  "(nat \<Rightarrow> 'a) \<Rightarrow> (nat \<Rightarrow> int) \<Rightarrow> (nat \<Rightarrow> int) \<Rightarrow> 'a CSRMatrix \<Rightarrow> ('a list, int list) COOMatrix
     \<Rightarrow> error + ('a list, int list) COOMatrix" where
  "csr_to_coo gv gr gc csr coo =
     (case require (csr_n_rows csr = n_rows coo) of Inl e \<Rightarrow> Inl e | Inr u \<Rightarrow>
     (case require (csr_n_cols csr = n_cols coo) of Inl e \<Rightarrow> Inl e | Inr u \<Rightarrow>
     (case coo_reserve coo (csr_nnz csr) gv gr gc of Inl e \<Rightarrow> Inl e | Inr coo1 \<Rightarrow>
     (case csr_to_coo_rows csr 0 0 (vals coo1, rows coo1, cols coo1) of
        Inl e \<Rightarrow> Inl e
      | Inr (vs, rs, cs) \<Rightarrow>
          Inr (coo1\<lparr> vals := vs, rows := rs, cols := cs, sort_order := CSR \<rparr>)))))"


section \<open>Sketching with dense operators: \<^verbatim>\<open>skge.hh\<close>, namespace \<^verbatim>\<open>dense\<close>\<close>

text \<open>
  \<^verbatim>\<open>lskge3\<close> and \<^verbatim>\<open>rskge3\<close> read four members of the operator: \<^verbatim>\<open>buff\<close>, \<^verbatim>\<open>layout\<close>,
  \<^verbatim>\<open>n_rows\<close> and \<^verbatim>\<open>n_cols\<close> (called \<open>op_n_rows\<close> and \<open>op_n_cols\<close> here); these are
  the record \<open>BLASFriendlyOperator\<close>.  A \<open>DenseSkOp\<close> has in addition its distribution
  (\<^verbatim>\<open>dist\<close>, called \<open>op_dist\<close> here) and its seed state, of which the two functions make no use but to hand the operator to
  \<^verbatim>\<open>submatrix_as_blackbox\<close>.  A null \<^verbatim>\<open>buff\<close> is \<open>None\<close>.
\<close>

record 'a BLASFriendlyOperator =
  layout :: Layout
  op_n_rows :: int
  op_n_cols :: int
  buff :: "'a list option"

record ('a, 'd, 's) DenseSkOp = "'a BLASFriendlyOperator" +
  op_dist :: 'd
  seed_state :: 's

text \<open>
  Modelled from the spec: \<^verbatim>\<open>dims_before_op\<close>, declared outside the sources at hand.  For an
  operand whose \<open>op\<close> is \<open>m\<close> by \<open>n\<close> it returns the shape of the operand itself.
\<close>

definition dims_before_op :: "int \<Rightarrow> int \<Rightarrow> Op \<Rightarrow> int \<times> int" where
  "dims_before_op m n op = (if op = NoTrans then (m, n) else (n, m))"

text \<open>
  Modelled from the spec: \<^verbatim>\<open>offset_and_ldim\<close>, declared outside the sources at hand.  With
  the addressing of section 4.5 (\<open>M[i,j] = buffer[i + j*ld]\<close> column-major,
  \<open>buffer[i*ld + j]\<close> row-major) it returns the position of entry \<open>(ro, co)\<close> in the buffer
  of an \<open>n_rows\<close> by \<open>n_cols\<close> matrix stored without padding, and the leading dimension.
\<close>

definition offset_and_ldim :: "Layout \<Rightarrow> int \<Rightarrow> int \<Rightarrow> int \<Rightarrow> int \<Rightarrow> int \<times> int" where
  "offset_and_ldim lay nr nc ro co =
     (if lay = ColMajor then (ro + nr * co, nr) else (ro * nc + co, nc))"

definition flip_op :: "Op \<Rightarrow> Op" where
  "flip_op op = (if op = NoTrans then Trans else NoTrans)"

text \<open>
  \<^verbatim>\<open>blas::gemm\<close> is an external primitive.  The sketching functions take it as their first
  argument \<open>gemm\<close>, applied to \<open>layout opA opB m n k alpha A offA lda B offB ldb beta C ldc\<close>
  where a pointer operand is a buffer and an offset into it (\<open>C\<close> at offset 0), and
  returning the buffer of \<open>C\<close>.
\<close>

type_synonym 'a gemm_fn =
  "Layout \<Rightarrow> Op \<Rightarrow> Op \<Rightarrow> int \<Rightarrow> int \<Rightarrow> int \<Rightarrow> 'a \<Rightarrow> 'a list \<Rightarrow> int \<Rightarrow> int \<Rightarrow> 'a list \<Rightarrow> int \<Rightarrow> int
     \<Rightarrow> 'a \<Rightarrow> 'a list \<Rightarrow> int \<Rightarrow> 'a list"

text \<open>
  \<^verbatim>\<open>lskge3\<close> instantiated at \<^verbatim>\<open>BLASFriendlyOperator\<close>, where the branch under
  \<^verbatim>\<open>if constexpr (maybe_denseskop)\<close> is compiled out.  The two tests of the shape of the
  operator compare with the \<^verbatim>\<open>int64_t\<close> sums \<^verbatim>\<open>rows_submat_S + ro_s\<close> and
  \<^verbatim>\<open>cols_submat_S + co_s\<close>, which are \<open>add64\<close>.
\<close>

definition lskge3_bfo ::
  "'a gemm_fn \<Rightarrow> Layout \<Rightarrow> Op \<Rightarrow> Op \<Rightarrow> int \<Rightarrow> int \<Rightarrow> int \<Rightarrow> 'a
     \<Rightarrow> ('a, 'm) BLASFriendlyOperator_scheme \<Rightarrow> int \<Rightarrow> int \<Rightarrow> 'a list \<Rightarrow> int \<Rightarrow> 'a \<Rightarrow> 'a list \<Rightarrow> int
     \<Rightarrow> error + 'a list" where
  "lskge3_bfo gemm lay opS opA d n m alpha S ro_s co_s A lda beta B ldb =
     (case dims_before_op d m opS of (rows_submat_S, cols_submat_S) \<Rightarrow>
      (case require (buff S \<noteq> None) of Inl e \<Rightarrow> Inl e | Inr u \<Rightarrow>
      (case require (op_n_rows S \<ge> add64 rows_submat_S ro_s) of Inl e \<Rightarrow> Inl e | Inr u \<Rightarrow>
      (case require (op_n_cols S \<ge> add64 cols_submat_S co_s) of Inl e \<Rightarrow> Inl e | Inr u \<Rightarrow>
      (case dims_before_op m n opA of (rows_A, cols_A) \<Rightarrow>
      (case (if lay = ColMajor
             then (case require (lda \<ge> rows_A) of Inl e \<Rightarrow> Inl e | Inr u \<Rightarrow> require (ldb \<ge> d))
             else (case require (lda \<ge> cols_A) of Inl e \<Rightarrow> Inl e | Inr u \<Rightarrow> require (ldb \<ge> n)))
       of Inl e \<Rightarrow> Inl e | Inr u \<Rightarrow>
      (case offset_and_ldim (layout S) (op_n_rows S) (op_n_cols S) ro_s co_s of (pos, lds) \<Rightarrow>
         (let opS' = (if layout S \<noteq> lay then flip_op opS else opS)
          in Inr (gemm lay opS' opA d n m alpha (the (buff S)) pos lds A 0 lda beta B ldb)))))))))"

text \<open>
  \<^verbatim>\<open>lskge3\<close> instantiated at \<^verbatim>\<open>DenseSkOp\<close>.  \<^verbatim>\<open>submatrix_as_blackbox\<close> is declared outside
  the sources at hand and is the argument \<open>blackbox\<close>.
\<close>

definition lskge3 ::
  "(('a, 'd, 's) DenseSkOp \<Rightarrow> int \<Rightarrow> int \<Rightarrow> int \<Rightarrow> int \<Rightarrow> error + 'a BLASFriendlyOperator)
     \<Rightarrow> 'a gemm_fn \<Rightarrow> Layout \<Rightarrow> Op \<Rightarrow> Op \<Rightarrow> int \<Rightarrow> int \<Rightarrow> int \<Rightarrow> 'a
     \<Rightarrow> ('a, 'd, 's) DenseSkOp \<Rightarrow> int \<Rightarrow> int \<Rightarrow> 'a list \<Rightarrow> int \<Rightarrow> 'a \<Rightarrow> 'a list \<Rightarrow> int
     \<Rightarrow> error + 'a list" where
  "lskge3 blackbox gemm lay opS opA d n m alpha S ro_s co_s A lda beta B ldb =
     (case dims_before_op d m opS of (rows_submat_S, cols_submat_S) \<Rightarrow>
        if buff S = None then
          (case blackbox S rows_submat_S cols_submat_S ro_s co_s of
             Inl e \<Rightarrow> Inl e
           | Inr submat_S \<Rightarrow>
               lskge3_bfo gemm lay opS opA d n m alpha submat_S 0 0 A lda beta B ldb)
        else lskge3_bfo gemm lay opS opA d n m alpha S ro_s co_s A lda beta B ldb)"

definition rskge3_bfo ::
  "'a gemm_fn \<Rightarrow> Layout \<Rightarrow> Op \<Rightarrow> Op \<Rightarrow> int \<Rightarrow> int \<Rightarrow> int \<Rightarrow> 'a \<Rightarrow> 'a list \<Rightarrow> int
     \<Rightarrow> ('a, 'm) BLASFriendlyOperator_scheme \<Rightarrow> int \<Rightarrow> int \<Rightarrow> 'a \<Rightarrow> 'a list \<Rightarrow> int
     \<Rightarrow> error + 'a list" where
  "rskge3_bfo gemm lay opA opS m d n alpha A lda S ro_s co_s beta B ldb =
     (case dims_before_op n d opS of (rows_submat_S, cols_submat_S) \<Rightarrow>
      (case require (buff S \<noteq> None) of Inl e \<Rightarrow> Inl e | Inr u \<Rightarrow>
      (case require (op_n_rows S \<ge> add64 rows_submat_S ro_s) of Inl e \<Rightarrow> Inl e | Inr u \<Rightarrow>
      (case require (op_n_cols S \<ge> add64 cols_submat_S co_s) of Inl e \<Rightarrow> Inl e | Inr u \<Rightarrow>
      (case dims_before_op m n opA of (rows_A, cols_A) \<Rightarrow>
      (case (if lay = ColMajor
             then (case require (lda \<ge> rows_A) of Inl e \<Rightarrow> Inl e | Inr u \<Rightarrow> require (ldb \<ge> m))
             else (case require (lda \<ge> cols_A) of Inl e \<Rightarrow> Inl e | Inr u \<Rightarrow> require (ldb \<ge> d)))
       of Inl e \<Rightarrow> Inl e | Inr u \<Rightarrow>
      (case offset_and_ldim (layout S) (op_n_rows S) (op_n_cols S) ro_s co_s of (pos, lds) \<Rightarrow>
         (let opS' = (if layout S \<noteq> lay then flip_op opS else opS)
          in Inr (gemm lay opA opS' m d n alpha A 0 lda (the (buff S)) pos lds beta B ldb)))))))))"

definition rskge3 ::
  "(('a, 'd, 's) DenseSkOp \<Rightarrow> int \<Rightarrow> int \<Rightarrow> int \<Rightarrow> int \<Rightarrow> error + 'a BLASFriendlyOperator)
     \<Rightarrow> 'a gemm_fn \<Rightarrow> Layout \<Rightarrow> Op \<Rightarrow> Op \<Rightarrow> int \<Rightarrow> int \<Rightarrow> int \<Rightarrow> 'a \<Rightarrow> 'a list \<Rightarrow> int
     \<Rightarrow> ('a, 'd, 's) DenseSkOp \<Rightarrow> int \<Rightarrow> int \<Rightarrow> 'a \<Rightarrow> 'a list \<Rightarrow> int
     \<Rightarrow> error + 'a list" where
  "rskge3 blackbox gemm lay opA opS m d n alpha A lda S ro_s co_s beta B ldb =
     (case dims_before_op n d opS of (rows_submat_S, cols_submat_S) \<Rightarrow>
        if buff S = None then
          (case blackbox S rows_submat_S cols_submat_S ro_s co_s of
             Inl e \<Rightarrow> Inl e
           | Inr submat_S \<Rightarrow>
               rskge3_bfo gemm lay opA opS m d n alpha A lda submat_S 0 0 beta B ldb)
        else rskge3_bfo gemm lay opA opS m d n alpha A lda S ro_s co_s beta B ldb)"

section \<open>Sketching with sparse operators: \<^verbatim>\<open>skge.hh\<close>, namespace \<^verbatim>\<open>sparse\<close>\<close>

text \<open>
  \<^verbatim>\<open>lskges\<close> and \<^verbatim>\<open>rskges\<close> read three members of a \<^verbatim>\<open>SparseSkOp\<close>: \<^verbatim>\<open>dist\<close>,
  \<^verbatim>\<open>seed_state\<close> and \<^verbatim>\<open>nnz\<close> (prefixed with \<open>sp_\<close> here).  What they call is declared
  outside the sources at hand and is an argument of the model: \<open>mk\<close> is the constructor
  \<^verbatim>\<open>SparseSkOp(dist, seed_state)\<close>, \<open>fill_sparse\<close> fills an operator in place,
  \<open>coo_view_of_skop\<close> returns the COO view, \<open>spmm\<close> is \<^verbatim>\<open>left_spmm\<close> or \<^verbatim>\<open>right_spmm\<close> and
  returns the buffer of \<open>B\<close>.  Both functions call themselves with \<^verbatim>\<open>shallowcopy\<close>, the
  filled copy \<open>fill_sparse (mk (sp_dist S) (sp_seed_state S))\<close>, in the place of \<open>S\<close> and
  with every other argument as it is; a run that does not return is the value \<open>None\<close>.
  The recursion is \<open>lskges_rec\<close> and \<open>rskges_rec\<close>, on the two things that change from one
  call to the next, the operator and the buffer of \<open>B\<close>: \<open>filled_copy\<close> makes
  \<^verbatim>\<open>shallowcopy\<close> and \<open>multiply S B\<close> is the call of \<open>spmm\<close> on the view of \<open>S\<close> with the
  fixed arguments.
\<close>

record ('d, 's) SparseSkOp =
  sp_dist :: 'd
  sp_seed_state :: 's
  sp_nnz :: int

partial_function (option) lskges_rec ::
  "(('d, 's) SparseSkOp \<Rightarrow> ('d, 's) SparseSkOp) \<Rightarrow> (('d, 's) SparseSkOp \<Rightarrow> 'bbuf \<Rightarrow> 'bbuf)
     \<Rightarrow> ('d, 's) SparseSkOp \<Rightarrow> 'bbuf \<Rightarrow> 'bbuf option" where
  "lskges_rec filled_copy multiply S B =
     (if sp_nnz S < 0 then lskges_rec filled_copy multiply (filled_copy S) B
      else Some (multiply S B))"

definition lskges ::
  "('d \<Rightarrow> 's \<Rightarrow> ('d, 's) SparseSkOp) \<Rightarrow> (('d, 's) SparseSkOp \<Rightarrow> ('d, 's) SparseSkOp)
     \<Rightarrow> (('d, 's) SparseSkOp \<Rightarrow> 'coo)
     \<Rightarrow> (Layout \<Rightarrow> Op \<Rightarrow> Op \<Rightarrow> int \<Rightarrow> int \<Rightarrow> int \<Rightarrow> 'a \<Rightarrow> 'coo \<Rightarrow> int \<Rightarrow> int \<Rightarrow> 'abuf \<Rightarrow> int \<Rightarrow> 'a
          \<Rightarrow> 'bbuf \<Rightarrow> int \<Rightarrow> 'bbuf)
     \<Rightarrow> Layout \<Rightarrow> Op \<Rightarrow> Op \<Rightarrow> int \<Rightarrow> int \<Rightarrow> int \<Rightarrow> 'a \<Rightarrow> ('d, 's) SparseSkOp \<Rightarrow> int \<Rightarrow> int
     \<Rightarrow> 'abuf \<Rightarrow> int \<Rightarrow> 'a \<Rightarrow> 'bbuf \<Rightarrow> int \<Rightarrow> 'bbuf option" where
  "lskges mk fill_sparse coo_view_of_skop spmm lay opS opA d n m alpha S ro_s co_s A lda beta B ldb =
     lskges_rec
       (\<lambda>S'. fill_sparse (mk (sp_dist S') (sp_seed_state S')))
       (\<lambda>S' B'. spmm lay opS opA d n m alpha (coo_view_of_skop S') ro_s co_s A lda beta B' ldb)
       S B"

text \<open>In \<^verbatim>\<open>rskges\<close> the branch for the unfilled operator does not end with \<^verbatim>\<open>return\<close>:
  control goes on to the two statements below it, with the \<open>B\<close> that the call inside the
  branch has written.\<close>

partial_function (option) rskges_rec ::
  "(('d, 's) SparseSkOp \<Rightarrow> ('d, 's) SparseSkOp) \<Rightarrow> (('d, 's) SparseSkOp \<Rightarrow> 'bbuf \<Rightarrow> 'bbuf)
     \<Rightarrow> ('d, 's) SparseSkOp \<Rightarrow> 'bbuf \<Rightarrow> 'bbuf option" where
  "rskges_rec filled_copy multiply S B =
     (if sp_nnz S < 0 then
        Option.bind (rskges_rec filled_copy multiply (filled_copy S) B)
          (\<lambda>B1. Some (multiply S B1))
      else Some (multiply S B))"

definition rskges ::
  "('d \<Rightarrow> 's \<Rightarrow> ('d, 's) SparseSkOp) \<Rightarrow> (('d, 's) SparseSkOp \<Rightarrow> ('d, 's) SparseSkOp)
     \<Rightarrow> (('d, 's) SparseSkOp \<Rightarrow> 'coo)
     \<Rightarrow> (Layout \<Rightarrow> Op \<Rightarrow> Op \<Rightarrow> int \<Rightarrow> int \<Rightarrow> int \<Rightarrow> 'a \<Rightarrow> 'abuf \<Rightarrow> int \<Rightarrow> 'coo \<Rightarrow> int \<Rightarrow> int \<Rightarrow> 'a
          \<Rightarrow> 'bbuf \<Rightarrow> int \<Rightarrow> 'bbuf)
     \<Rightarrow> Layout \<Rightarrow> Op \<Rightarrow> Op \<Rightarrow> int \<Rightarrow> int \<Rightarrow> int \<Rightarrow> 'a \<Rightarrow> 'abuf \<Rightarrow> int \<Rightarrow> ('d, 's) SparseSkOp
     \<Rightarrow> int \<Rightarrow> int \<Rightarrow> 'a \<Rightarrow> 'bbuf \<Rightarrow> int \<Rightarrow> 'bbuf option" where
  "rskges mk fill_sparse coo_view_of_skop spmm lay opA opS m d n alpha A lda S ro_s co_s beta B ldb =
     rskges_rec
       (\<lambda>S'. fill_sparse (mk (sp_dist S') (sp_seed_state S')))
       (\<lambda>S' B'. spmm lay opA opS m d n alpha A lda (coo_view_of_skop S') ro_s co_s beta B' ldb)
       S B"

section \<open>The state of the generator: \<^verbatim>\<open>base.cc\<close>\<close>

text \<open>
  \<^verbatim>\<open>RNGState\<close> holds two arrays of \<^verbatim>\<open>uint32_t\<close> allocated with \<^verbatim>\<open>new\<close>.  The constructor
  from \<open>(c0, k0)\<close> allocates four words for each and assigns word 0 of each; \<open>gc\<close> and \<open>gk\<close>
  are the contents of the two fresh allocations.
\<close>

record RNGState =
  len_c :: int
  len_k :: int
  ctr :: "32 word list"
  key :: "32 word list"

definition RNGState_seed ::
  "32 word \<Rightarrow> 32 word \<Rightarrow> (nat \<Rightarrow> 32 word) \<Rightarrow> (nat \<Rightarrow> 32 word) \<Rightarrow> error + RNGState" where
  "RNGState_seed c0 k0 gc gk =
     (case new_array 4 gc of Inl e \<Rightarrow> Inl e | Inr c \<Rightarrow>
     (case new_array 4 gk of Inl e \<Rightarrow> Inl e | Inr k \<Rightarrow>
     (case wr c 0 c0 of Inl e \<Rightarrow> Inl e | Inr c' \<Rightarrow>
     (case wr k 0 k0 of Inl e \<Rightarrow> Inl e | Inr k' \<Rightarrow>
        Inr \<lparr> len_c = 4, len_k = 4, ctr = c', key = k' \<rparr>))))"

text \<open>The copy constructor: \<^verbatim>\<open>memcpy\<close> of \<open>len_c\<close> and \<open>len_k\<close> words over the fresh
  arrays.\<close>

definition memcpy_words :: "'a list \<Rightarrow> 'a list \<Rightarrow> int \<Rightarrow> error + 'a list" where
  "memcpy_words dst src n =
     (if n < 0 \<or> nat n > length dst \<or> nat n > length src then Inl OutOfBounds
      else Inr (take (nat n) src @ drop (nat n) dst))"

definition RNGState_copy ::
  "(nat \<Rightarrow> 32 word) \<Rightarrow> (nat \<Rightarrow> 32 word) \<Rightarrow> RNGState \<Rightarrow> error + RNGState" where
  "RNGState_copy gc gk s =
     (case new_array (len_c s) gc of Inl e \<Rightarrow> Inl e | Inr c \<Rightarrow>
     (case new_array (len_k s) gk of Inl e \<Rightarrow> Inl e | Inr k \<Rightarrow>
     (case memcpy_words c (ctr s) (len_c s) of Inl e \<Rightarrow> Inl e | Inr c' \<Rightarrow>
     (case memcpy_words k (key s) (len_k s) of Inl e \<Rightarrow> Inl e | Inr k' \<Rightarrow>
        Inr \<lparr> len_c = len_c s, len_k = len_k s, ctr = c', key = k' \<rparr>))))"


section \<open>Collaborators described by the specification\<close>

subsection \<open>The dense product\<close>

text \<open>
  Modelled from the spec: the external GEMM primitive \<open>(layout, opA, opB, m, n, k, alpha, A,
  lda, B, ldb, beta, C, ldc)\<close> of section 6, with the addressing of section 4.5:
  \<open>M[i,j] = buffer[i + j*ld]\<close> column-major, \<open>buffer[i*ld + j]\<close> row-major.  It assigns
  \<open>alpha * op(A) * op(B) + beta * C\<close> to the \<open>m\<close> by \<open>n\<close> matrix held in \<open>C\<close> and leaves
  every other cell of \<open>C\<close> as it is.  The inner sum runs over \<open>l = 0, ..., k - 1\<close> in this
  order.
\<close>

definition mat_at :: "Layout \<Rightarrow> 'a list \<Rightarrow> int \<Rightarrow> int \<Rightarrow> int \<Rightarrow> int \<Rightarrow> 'a" where
  "mat_at lay buf off ld i j =
     buf ! nat (off + (if lay = ColMajor then i + j * ld else i * ld + j))"

text \<open>Modelled from the spec: the entry \<open>(i, j)\<close> of \<open>op(M)\<close>, for the two values of the
  transpose flag of the GEMM primitive.\<close>

definition op_at :: "Layout \<Rightarrow> Op \<Rightarrow> 'a list \<Rightarrow> int \<Rightarrow> int \<Rightarrow> int \<Rightarrow> int \<Rightarrow> 'a" where
  "op_at lay op buf off ld i j =
     (if op = NoTrans then mat_at lay buf off ld i j else mat_at lay buf off ld j i)"

text \<open>Modelled from the spec: the inverse of the addressing rule, from a position in a buffer
  with leading dimension \<open>ld\<close> to the row and the column stored there.\<close>

definition cell_index :: "Layout \<Rightarrow> int \<Rightarrow> nat \<Rightarrow> int \<times> int" where
  "cell_index lay ld idx =
     (if lay = ColMajor then (int idx mod ld, int idx div ld)
      else (int idx div ld, int idx mod ld))"

text \<open>Modelled from the spec: the GEMM primitive itself, as described above.\<close>

definition blas_gemm :: "('a::semiring_0) gemm_fn" where
  "blas_gemm lay opA opB m n k alpha A offA lda B offB ldb beta C ldc =
     map (\<lambda>idx.
            (case cell_index lay ldc idx of (i, j) \<Rightarrow>
               if i < m \<and> j < n then
                 alpha * sum_list (map (\<lambda>l. op_at lay opA A offA lda i (int l)
                                             * op_at lay opB B offB ldb (int l) j) [0..<nat k])
                 + beta * (C ! idx)
               else C ! idx))
         [0..<length C]"

subsection \<open>Filling a dense operator\<close>

text \<open>
  Modelled from the spec: \<^verbatim>\<open>fill_dense\<close> and \<^verbatim>\<open>submatrix_as_blackbox\<close>, which are declared
  outside the sources at hand.  By section 4.5 the temporary operator holds the requested
  window, made by the same generation procedure as the full materialization.  The procedure
  is the argument \<open>entry\<close>: \<open>entry dist seed i j\<close> is the entry \<open>(i, j)\<close> of the operator with
  distribution \<open>dist\<close> generated from \<open>seed\<close>.  \<open>fill_dense\<close> stores all entries in the
  layout of the operator; \<open>submatrix_as_blackbox\<close> stores the entries of the window, in the
  same layout, in an operator that has the shape of the window.
\<close>

text \<open>Modelled from the spec: the buffer of an \<open>nr\<close> by \<open>nc\<close> matrix with entries \<open>f i j\<close>,
  stored without padding in the given layout.\<close>

definition dense_buffer :: "Layout \<Rightarrow> int \<Rightarrow> int \<Rightarrow> (int \<Rightarrow> int \<Rightarrow> 'a) \<Rightarrow> 'a list" where
  "dense_buffer lay nr nc f =
     map (\<lambda>idx. case cell_index lay (if lay = ColMajor then nr else nc) idx of (i, j) \<Rightarrow> f i j)
       [0..<nat (nr * nc)]"

text \<open>Modelled from the spec: \<^verbatim>\<open>fill_dense\<close>, the full materialization of an operator.\<close>

definition fill_dense ::
  "('d \<Rightarrow> 's \<Rightarrow> int \<Rightarrow> int \<Rightarrow> 'a) \<Rightarrow> ('a, 'd, 's) DenseSkOp \<Rightarrow> ('a, 'd, 's) DenseSkOp" where
  "fill_dense entry S =
     S\<lparr> buff := Some (dense_buffer (layout S) (op_n_rows S) (op_n_cols S)
                        (entry (op_dist S) (seed_state S))) \<rparr>"

text \<open>Modelled from the spec: \<^verbatim>\<open>submatrix_as_blackbox\<close>, the temporary operator that holds the
  \<open>nr\<close> by \<open>nc\<close> window at offset \<open>(ro_s, co_s)\<close>.\<close>

definition submatrix_as_blackbox ::
  "('d \<Rightarrow> 's \<Rightarrow> int \<Rightarrow> int \<Rightarrow> 'a) \<Rightarrow> ('a, 'd, 's) DenseSkOp \<Rightarrow> int \<Rightarrow> int \<Rightarrow> int \<Rightarrow> int
     \<Rightarrow> error + 'a BLASFriendlyOperator" where
  "submatrix_as_blackbox entry S nr nc ro_s co_s =
     Inr \<lparr> layout = layout S, op_n_rows = nr, op_n_cols = nc,
           buff = Some (dense_buffer (layout S) nr nc
                          (\<lambda>i j. entry (op_dist S) (seed_state S) (ro_s + i) (co_s + j))) \<rparr>"

subsection \<open>Sampling without replacement\<close>

text \<open>
  Modelled from the spec: \<^verbatim>\<open>repeated_fisher_yates\<close> of section 4.4, which is declared
  outside the sources at hand (only its test is there).  The state is a counter of
  4 \<times> 32 bits and a key; \<open>gen c k\<close> is the unsigned integer that the generator
  returns at counter \<open>c\<close> under key \<open>k\<close>, and each draw advances the counter by one.  One
  repetition starts from the identity permutation of \<open>[0, d)\<close>; for \<open>i = 0, ..., k - 1\<close> it
  draws \<open>j\<close> in \<open>[i, d)\<close>, exchanges positions \<open>i\<close> and \<open>j\<close> and records the value now at
  position \<open>i\<close>.  The repetitions follow each other on the stream, and the function
  returns the recorded indices, one repetition after the other, and the state after the last
  draw.  (The test of the function in the sources expects the counter to advance by the same
  amount in each repetition, and the counter after one call for four repetitions to equal
  the counter after a call for one repetition chained with a call for three.)
\<close>

record 'k draw_state =
  counter :: "128 word"
  gen_key :: 'k

text \<open>Modelled from the spec: the steps \<open>i, i + 1, ...\<close> of one repetition, \<open>todo\<close> of them
  left, on the permutation \<open>perm\<close> and from the counter \<open>c\<close>.\<close>

fun fisher_yates_steps ::
  "(128 word \<Rightarrow> 'k \<Rightarrow> nat) \<Rightarrow> 'k \<Rightarrow> nat \<Rightarrow> nat \<Rightarrow> nat \<Rightarrow> nat list \<Rightarrow> 128 word
     \<Rightarrow> nat list \<times> 128 word" where
  "fisher_yates_steps gen k d i 0 perm c = ([], c)"
| "fisher_yates_steps gen k d i (Suc todo) perm c =
     (let j = i + gen c k mod (d - i);
          perm' = perm[i := perm ! j, j := perm ! i]
      in case fisher_yates_steps gen k d (Suc i) todo perm' (c + 1) of
           (out, c') \<Rightarrow> (perm' ! i # out, c'))"

text \<open>Modelled from the spec: \<^verbatim>\<open>repeated_fisher_yates\<close>, \<open>r\<close> repetitions of \<open>num_samples\<close>
  steps each.\<close>

fun repeated_fisher_yates ::
  "(128 word \<Rightarrow> 'k \<Rightarrow> nat) \<Rightarrow> nat \<Rightarrow> nat \<Rightarrow> nat \<Rightarrow> 'k draw_state \<Rightarrow> nat list \<times> 'k draw_state" where
  "repeated_fisher_yates gen num_samples d 0 s = ([], s)"
| "repeated_fisher_yates gen num_samples d (Suc r) s =
     (case fisher_yates_steps gen (gen_key s) d 0 num_samples [0..<d] (counter s) of
        (out1, c1) \<Rightarrow>
          (case repeated_fisher_yates gen num_samples d r (s\<lparr> counter := c1 \<rparr>) of
             (out2, s2) \<Rightarrow> (out1 @ out2, s2)))"


subsection \<open>Reading the buffer of an operator in the other layout\<close>

text \<open>
  The same buffer declared in the other storage layout: the layout is exchanged, and with it
  the two extents.  This is not a function of the sources; it states what ``the same buffer
  reinterpreted'' is.
\<close>

definition other_layout :: "Layout \<Rightarrow> Layout" where
  "other_layout lay = (if lay = ColMajor then RowMajor else ColMajor)"

definition reinterpret_buffer ::
  "('a, 'm) BLASFriendlyOperator_scheme \<Rightarrow> ('a, 'm) BLASFriendlyOperator_scheme" where
  "reinterpret_buffer S =
     S\<lparr> layout := other_layout (layout S), op_n_rows := op_n_cols S, op_n_cols := op_n_rows S \<rparr>"


subsection \<open>The nonzeros of a COO matrix\<close>

text \<open>
  The vector of triples \<open>(row, col, val)\<close> that \<^verbatim>\<open>sort_coo_data\<close> builds from the first
  \<open>nnz\<close> cells of the three arrays, and the coordinate of a triple.  They serve to state
  in which order the arrays are.
\<close>

definition nonzeros :: "('a list, int list) COOMatrix \<Rightarrow> 'a triple list" where
  "nonzeros M = map (\<lambda>ell. (rows M ! ell, cols M ! ell, vals M ! ell)) [0..<nat (nnz M)]"

definition coord :: "'a triple \<Rightarrow> int \<times> int" where
  "coord t = (fst t, fst (snd t))"


text \<open>The pair by which \<^verbatim>\<open>sort_func\<close> compares two triples: \<open>(row, col)\<close> for the CSR
  order and \<open>(col, row)\<close> otherwise.\<close>

definition key_of :: "NonzeroSort \<Rightarrow> 'a triple \<Rightarrow> int \<times> int" where
  "key_of s t = (if s = CSR then (fst t, fst (snd t)) else (fst (snd t), fst t))"

text \<open>
  An \<open>nr\<close> by \<open>nc\<close> window at offset \<open>(ro, co)\<close> that lies inside the declared shape of an
  operator: what a valid submatrix offset is.
\<close>

definition window_in_operator ::
  "('a, 'm) BLASFriendlyOperator_scheme \<Rightarrow> int \<Rightarrow> int \<Rightarrow> int \<Rightarrow> int \<Rightarrow> bool" where
  "window_in_operator S nr nc ro co =
     (0 \<le> ro \<and> 0 \<le> co \<and> 0 \<le> nr \<and> 0 \<le> nc \<and> ro + nr \<le> op_n_rows S \<and> co + nc \<le> op_n_cols S)"

section \<open>Properties\<close>

subsection \<open>The transposed view of a COO matrix\<close>

lemma transpose_coo_result:
  "transpose_coo S =
     (\<lparr> n_rows = n_rows S, n_cols = n_cols S, index_base = index_base S, own_memory = False,
        nnz = nnz S, vals = vals S, rows = cols S, cols = rows S,
        sort_order = (case sort_order S of CSR \<Rightarrow> CSC | CSC \<Rightarrow> CSR | None_sort \<Rightarrow> None_sort),
        can_reserve = True \<rparr>,
      if own_memory S then ({vals S}, {rows S, cols S}) else ({}, {}))"
  by (cases "sort_order S")
     (simp_all add: transpose_coo_def COOMatrix_wrap_nosort_def COOMatrix_destroy_def Let_def)

lemma transpose_coo_non_owning:
  "\<not> own_memory S \<Longrightarrow>
   snd (transpose_coo S) = ({}, {})
   \<and> own_memory (fst (transpose_coo S)) = False
   \<and> vals (fst (transpose_coo S)) = vals S
   \<and> rows (fst (transpose_coo S)) = cols S
   \<and> cols (fst (transpose_coo S)) = rows S
   \<and> sort_order (fst (transpose_coo S)) =
       (case sort_order S of CSR \<Rightarrow> CSC | CSC \<Rightarrow> CSR | None_sort \<Rightarrow> None_sort)
   \<and> n_rows (fst (transpose_coo S)) = n_rows S
   \<and> n_cols (fst (transpose_coo S)) = n_cols S"
  by (simp add: transpose_coo_result)

text \<open>
  C10 (the code departs from the claim).  The claim: for every COO matrix \<open>S\<close>,
  \<open>transpose\<close> returns a non-owning view that shares the \<open>vals\<close> buffer of \<open>S\<close>, with the
  \<open>rows\<close> and \<open>cols\<close> arrays of \<open>S\<close> exchanged, the sort flag mapped and \<open>n_rows\<close> and
  \<open>n_cols\<close> as in \<open>S\<close>.  The fields of the view are as the claim says
  (\<open>transpose_coo_result\<close>), and for a matrix that does not own its arrays they point to
  arrays that are still there (\<open>transpose_coo_non_owning\<close>).  For a matrix that owns its
  arrays, here with \<open>vals\<close> at address 100, \<open>rows\<close> at 200 and \<open>cols\<close> at 300, the
  parameter, passed by value, deletes the three arrays when the function returns: each of the
  three pointers of the view that is returned is the address of an array that has been
  deleted, and there is no buffer left to share.
\<close>

theorem transpose_owning_view_dangles:
  "transpose_coo
     \<lparr> n_rows = 2, n_cols = 3, index_base = Zero, own_memory = True, nnz = 1,
       vals = 100 :: nat, rows = 200 :: nat, cols = 300, sort_order = CSR, can_reserve = False \<rparr>
   = (\<lparr> n_rows = 2, n_cols = 3, index_base = Zero, own_memory = False, nnz = 1,
        vals = 100, rows = 300, cols = 200, sort_order = CSC, can_reserve = True \<rparr>,
      ({100}, {200, 300}))
   \<and> vals (fst (transpose_coo
         \<lparr> n_rows = 2, n_cols = 3, index_base = Zero, own_memory = True, nnz = 1,
           vals = 100 :: nat, rows = 200 :: nat, cols = 300, sort_order = CSR,
           can_reserve = False \<rparr>))
       \<in> fst (snd (transpose_coo
         \<lparr> n_rows = 2, n_cols = 3, index_base = Zero, own_memory = True, nnz = 1,
           vals = 100 :: nat, rows = 200 :: nat, cols = 300, sort_order = CSR,
           can_reserve = False \<rparr>))
   \<and> {rows (fst (transpose_coo
         \<lparr> n_rows = 2, n_cols = 3, index_base = Zero, own_memory = True, nnz = 1,
           vals = 100 :: nat, rows = 200 :: nat, cols = 300, sort_order = CSR,
           can_reserve = False \<rparr>)),
       cols (fst (transpose_coo
         \<lparr> n_rows = 2, n_cols = 3, index_base = Zero, own_memory = True, nnz = 1,
           vals = 100 :: nat, rows = 200 :: nat, cols = 300, sort_order = CSR,
           can_reserve = False \<rparr>))}
       \<subseteq> snd (snd (transpose_coo
         \<lparr> n_rows = 2, n_cols = 3, index_base = Zero, own_memory = True, nnz = 1,
           vals = 100 :: nat, rows = 200 :: nat, cols = 300, sort_order = CSR,
           can_reserve = False \<rparr>))"
  by (simp add: transpose_coo_result)

subsection \<open>The dense sketching functions on a materialized operator\<close>

lemma lskge3_bfo_result:
  "buff S \<noteq> None \<Longrightarrow>
   lskge3_bfo gemm lay opS opA d n m alpha S ro_s co_s A lda beta B ldb =
     (if op_n_rows S < add64 (fst (dims_before_op d m opS)) ro_s
         \<or> op_n_cols S < add64 (snd (dims_before_op d m opS)) co_s
         \<or> lda < (if lay = ColMajor then fst (dims_before_op m n opA)
                  else snd (dims_before_op m n opA))
         \<or> ldb < (if lay = ColMajor then d else n)
      then Inl PreconditionFailed
      else Inr (gemm lay (if layout S \<noteq> lay then flip_op opS else opS) opA d n m alpha
                  (the (buff S))
                  (fst (offset_and_ldim (layout S) (op_n_rows S) (op_n_cols S) ro_s co_s))
                  (snd (offset_and_ldim (layout S) (op_n_rows S) (op_n_cols S) ro_s co_s))
                  A 0 lda beta B ldb))"
  by (auto simp: lskge3_bfo_def require_def dims_before_op_def offset_and_ldim_def Let_def
      split: prod.splits)

lemma rskge3_bfo_result:
  "buff S \<noteq> None \<Longrightarrow>
   rskge3_bfo gemm lay opA opS m d n alpha A lda S ro_s co_s beta B ldb =
     (if op_n_rows S < add64 (fst (dims_before_op n d opS)) ro_s
         \<or> op_n_cols S < add64 (snd (dims_before_op n d opS)) co_s
         \<or> lda < (if lay = ColMajor then fst (dims_before_op m n opA)
                  else snd (dims_before_op m n opA))
         \<or> ldb < (if lay = ColMajor then m else d)
      then Inl PreconditionFailed
      else Inr (gemm lay opA (if layout S \<noteq> lay then flip_op opS else opS) m d n alpha A 0 lda
                  (the (buff S))
                  (fst (offset_and_ldim (layout S) (op_n_rows S) (op_n_cols S) ro_s co_s))
                  (snd (offset_and_ldim (layout S) (op_n_rows S) (op_n_cols S) ro_s co_s))
                  beta B ldb))"
  by (auto simp: rskge3_bfo_def require_def dims_before_op_def offset_and_ldim_def Let_def
      split: prod.splits)

lemma lskge3_materialized:
  "buff S \<noteq> None \<Longrightarrow>
   lskge3 blackbox gemm lay opS opA d n m alpha S ro_s co_s A lda beta B ldb
     = lskge3_bfo gemm lay opS opA d n m alpha S ro_s co_s A lda beta B ldb"
  by (auto simp: lskge3_def split: prod.splits)

lemma rskge3_materialized:
  "buff S \<noteq> None \<Longrightarrow>
   rskge3 blackbox gemm lay opA opS m d n alpha A lda S ro_s co_s beta B ldb
     = rskge3_bfo gemm lay opA opS m d n alpha A lda S ro_s co_s beta B ldb"
  by (auto simp: rskge3_def split: prod.splits)






lemma op_at_flip:
  "layS \<noteq> lay \<Longrightarrow> op_at lay (flip_op op) buf off ld i j = op_at layS op buf off ld i j"
  by (cases layS; cases lay; cases op) (simp_all add: op_at_def mat_at_def flip_op_def add.commute)

lemma op_at_effective:
  "op_at lay (if layS \<noteq> lay then flip_op op else op) buf off ld i j = op_at layS op buf off ld i j"
  by (cases "layS = lay") (simp_all add: op_at_flip)

lemma blas_gemm_flipped_flag:
  "blas_gemm lay (if layS \<noteq> lay then flip_op opS else opS) opA d n m alpha S pos lds A offA lda
       beta B ldb =
     map (\<lambda>idx.
            (case cell_index lay ldb idx of (i, j) \<Rightarrow>
               if i < d \<and> j < n then
                 alpha * sum_list (map (\<lambda>l. op_at layS opS S pos lds i (int l)
                                             * op_at lay opA A offA lda (int l) j) [0..<nat m])
                 + beta * (B ! idx)
               else B ! idx))
         [0..<length B]"
  unfolding blas_gemm_def op_at_effective ..

text \<open>
  C6.  For every materialized operator \<open>S\<close>, calling \<open>lskge3\<close> (or \<open>rskge3\<close>) on \<open>S\<close> gives
  the same result, error or buffer, as calling it with the transpose flag of \<open>S\<close> flipped on
  the same buffer declared in the other storage layout, with the two extents and the two
  offsets exchanged; so a row-major buffer used with \<open>NoTrans\<close> and the same buffer read as
  column-major and used with \<open>Trans\<close> give identical output, for every multiply layout and
  for every GEMM.  (\<open>op_at_flip\<close> and \<open>blas_gemm_flipped_flag\<close> above are the reason inside
  GEMM: where the layout of \<open>S\<close> differs from the multiply layout, the flipped flag makes
  GEMM read, at each position, the entry that the flag as given selects in the layout of
  \<open>S\<close>, so that the product is the one of the operator as stored, with no copy.)
\<close>

theorem skge3_layout_transpose:
  assumes "buff S \<noteq> None"
  shows "lskge3 blackbox gemm lay opS opA d n m alpha S ro_s co_s A lda beta B ldb
           = lskge3 blackbox gemm lay (flip_op opS) opA d n m alpha (reinterpret_buffer S)
               co_s ro_s A lda beta B ldb
       \<and> rskge3 blackbox gemm lay opA opS m' d' n' alpha A lda S ro_s co_s beta B ldb
           = rskge3 blackbox gemm lay opA (flip_op opS) m' d' n' alpha A lda
               (reinterpret_buffer S) co_s ro_s beta B ldb"
proof -
  have b: "buff (reinterpret_buffer S) \<noteq> None"
    using assms by (simp add: reinterpret_buffer_def)
  show ?thesis
    unfolding lskge3_materialized [OF assms] lskge3_materialized [OF b]
      rskge3_materialized [OF assms] rskge3_materialized [OF b]
      lskge3_bfo_result [OF assms] lskge3_bfo_result [OF b]
      rskge3_bfo_result [OF assms] rskge3_bfo_result [OF b]
    by (cases "layout S"; cases lay; cases opS)
       (auto simp: reinterpret_buffer_def other_layout_def flip_op_def dims_before_op_def
          offset_and_ldim_def mult.commute add.commute)
qed

text \<open>
  The theorem at a 3 by 2 row-major operator, of which the call takes the 2 by 2 submatrix
  at row offset 1: the same six cells read as a 2 by 3 column-major operator, with \<open>Trans\<close>
  and column offset 1, give the same product.
\<close>

theorem skge3_layout_transpose_witness:
  "buff \<lparr> layout = RowMajor, op_n_rows = 3, op_n_cols = 2,
          buff = Some [1, 2, 3, 4, 5, 6 :: real], op_dist = (), seed_state = () \<rparr> \<noteq> None
   \<and> lskge3 (submatrix_as_blackbox (\<lambda>d s i j. 0)) blas_gemm RowMajor NoTrans NoTrans 2 1 2 1
       \<lparr> layout = RowMajor, op_n_rows = 3, op_n_cols = 2,
          buff = Some [1, 2, 3, 4, 5, 6 :: real], op_dist = (), seed_state = () \<rparr>
       1 0 [1, 10] 1 0 [0, 0] 1 = Inr [43, 65]
   \<and> lskge3 (submatrix_as_blackbox (\<lambda>d s i j. 0)) blas_gemm RowMajor Trans NoTrans 2 1 2 1
       \<lparr> layout = ColMajor, op_n_rows = 2, op_n_cols = 3,
          buff = Some [1, 2, 3, 4, 5, 6 :: real], op_dist = (), seed_state = () \<rparr>
       0 1 [1, 10] 1 0 [0, 0] 1 = Inr [43, 65]"
proof -
  let ?S = "\<lparr> layout = RowMajor, op_n_rows = 3, op_n_cols = 2,
              buff = Some [1, 2, 3, 4, 5, 6 :: real], op_dist = (), seed_state = () \<rparr>"
  have v: "lskge3 (submatrix_as_blackbox (\<lambda>d s i j. 0)) blas_gemm RowMajor NoTrans NoTrans
             2 1 2 1 ?S 1 0 [1, 10] 1 0 [0, 0] 1 = Inr [43, 65]"
    by code_simp
  have r: "reinterpret_buffer ?S =
             \<lparr> layout = ColMajor, op_n_rows = 2, op_n_cols = 3,
               buff = Some [1, 2, 3, 4, 5, 6 :: real], op_dist = (), seed_state = () \<rparr>"
    by (simp add: reinterpret_buffer_def other_layout_def)
  have f: "flip_op NoTrans = Trans"
    by (simp add: flip_op_def)
  from skge3_layout_transpose [of ?S "submatrix_as_blackbox (\<lambda>d s i j. 0)" blas_gemm
      RowMajor NoTrans NoTrans 2 1 2 1 1 0 "[1, 10]" 1 0 "[0, 0]" 1]
  show ?thesis
    unfolding r f using v by simp
qed

subsection \<open>The sparse sketching functions on an operator that is not filled\<close>

lemma lskges_unfilled:
  assumes "sp_nnz S < 0" and "sp_nnz (fill_sparse (mk (sp_dist S) (sp_seed_state S))) \<ge> 0"
  shows "lskges mk fill_sparse view spmm lay opS opA d n m alpha S ro_s co_s A lda beta B ldb
     = Some (spmm lay opS opA d n m alpha
               (view (fill_sparse (mk (sp_dist S) (sp_seed_state S)))) ro_s co_s A lda beta B ldb)"
  using assms by (simp add: lskges_def lskges_rec.simps)

lemma rskges_unfilled:
  assumes "sp_nnz S < 0" and "sp_nnz (fill_sparse (mk (sp_dist S) (sp_seed_state S))) \<ge> 0"
  shows "rskges mk fill_sparse view spmm lay opA opS m d n alpha A lda S ro_s co_s beta B ldb
     = Some (spmm lay opA opS m d n alpha A lda (view S) ro_s co_s beta
              (spmm lay opA opS m d n alpha A lda
                 (view (fill_sparse (mk (sp_dist S) (sp_seed_state S)))) ro_s co_s beta B ldb)
              ldb)"
  using assms by (simp add: rskges_def rskges_rec.simps)

text \<open>
  C4 (the code departs from the claim).  The claim: on an operator with negative \<open>nnz\<close>,
  \<open>lskges\<close> and \<open>rskges\<close> fill a copy and write into \<open>B\<close> what the call on the filled
  operator writes, \<open>rskges\<close> multiplying exactly once.  \<open>lskges\<close> does (\<open>lskges_unfilled\<close>).
  \<open>rskges\<close> multiplies twice (\<open>rskges_unfilled\<close>): once with the filled copy and then, on
  the \<open>B\<close> so obtained, with the view of the operator that is still not filled.  Here the
  buffer of \<open>B\<close> is the log of the views it has been multiplied with, a view being the
  \<open>nnz\<close> of its operator, and filling sets \<open>nnz\<close> to 5: \<open>rskges\<close> returns the log of two
  multiplications, the second with the unfilled operator, where \<open>lskges\<close> returns the log of
  one.
\<close>

theorem rskges_unfilled_multiplies_twice:
  "rskges (\<lambda>d s. \<lparr> sp_dist = d, sp_seed_state = s, sp_nnz = - 1 \<rparr>)
          (\<lambda>S. S\<lparr> sp_nnz := 5 \<rparr>)
          sp_nnz
          (\<lambda>lay opA opS m d n alpha A lda Scoo ro_s co_s beta B ldb. B @ [Scoo])
          ColMajor NoTrans NoTrans 1 1 1 (1 :: real) [1 :: real] 1
          \<lparr> sp_dist = (), sp_seed_state = (), sp_nnz = - 1 \<rparr> 0 0 0 [] 1
     = Some [5, - 1]
   \<and> lskges (\<lambda>d s. \<lparr> sp_dist = d, sp_seed_state = s, sp_nnz = - 1 \<rparr>)
          (\<lambda>S. S\<lparr> sp_nnz := 5 \<rparr>)
          sp_nnz
          (\<lambda>lay opS opA d n m alpha Scoo ro_s co_s A lda beta B ldb. B @ [Scoo])
          ColMajor NoTrans NoTrans 1 1 1 (1 :: real) \<lparr> sp_dist = (), sp_seed_state = (), sp_nnz = - 1 \<rparr>
          0 0 [1 :: real] 1 0 [] 1
     = Some [5]"
  by (simp add: rskges_def rskges_rec.simps lskges_def lskges_rec.simps)

subsection \<open>Conversions between COO and CSR\<close>

text \<open>
  C5 (the code departs from the claim).  The claim: \<open>coo_to_csr\<close> followed by \<open>csr_to_coo\<close>
  recovers the nonzeros of a COO matrix.  On the 1 by 2 matrix with the nonzeros
  \<open>(0, 0, a)\<close> and \<open>(0, 1, b)\<close>, \<open>coo_to_csr\<close> runs past the end of \<^verbatim>\<open>coo.rows\<close>, whatever
  the fresh arrays of the CSR matrix hold.  On the CSR form of the same matrix
  (\<open>rowptr = [0, 2]\<close>, \<open>colidxs = [0, 1]\<close>), \<open>csr_to_coo\<close> returns a matrix with \<open>nnz = 2\<close>
  of which only cell 0 of each array has been written, with \<open>(0, 1, a)\<close>; cell 1 holds what
  the allocation held, and neither \<open>(0, 0, a)\<close> nor \<open>(0, 1, b)\<close> is in the result.
\<close>

theorem coo_csr_roundtrip_fails:
  "coo_to_csr gp gc gv
     \<lparr> n_rows = 1, n_cols = 2, index_base = Zero, own_memory = False, nnz = 2,
       vals = [a :: real, b], rows = [0, 0], cols = [0, 1], sort_order = CSR,
       can_reserve = True \<rparr>
     (CSRMatrix_empty 1 2 Zero) = Inl OutOfBounds
   \<and> csr_to_coo gv' gr' gc' (CSRMatrix_wrap 1 2 2 [a, b] [0, 2] [0, 1] Zero)
       (COOMatrix_empty 1 2 Zero)
     = Inr \<lparr> n_rows = 1, n_cols = 2, index_base = Zero, own_memory = True, nnz = 2,
             vals = [a, gv' 1], rows = [0, gr' 1], cols = [1, gc' 1], sort_order = CSR,
             can_reserve = False \<rparr>"
  by code_simp

subsection \<open>Constructing the state of the generator\<close>

lemma RNGState_seed_result:
  "RNGState_seed c0 k0 gc gk =
     Inr \<lparr> len_c = 4, len_k = 4, ctr = [c0, gc 1, gc 2, gc 3], key = [k0, gk 1, gk 2, gk 3] \<rparr>"
  by code_simp

text \<open>
  C7 (the code departs from the claim).  The claim: two states constructed from the same
  \<open>(c0, k0)\<close> have equal counter and key contents.  The constructor assigns word 0 of the
  counter and word 0 of the key and leaves the other three words of each as the allocation
  returned them (\<open>RNGState_seed_result\<close>): two constructions from \<open>(0, 0)\<close>, one in memory
  that holds zeros and one in memory that holds ones, give different counters.
\<close>

theorem RNGState_seed_depends_on_allocation:
  "RNGState_seed 0 0 (\<lambda>i. 0) (\<lambda>i. 0)
     = Inr \<lparr> len_c = 4, len_k = 4, ctr = [0, 0, 0, 0], key = [0, 0, 0, 0] \<rparr>
   \<and> RNGState_seed 0 0 (\<lambda>i. 1) (\<lambda>i. 0)
     = Inr \<lparr> len_c = 4, len_k = 4, ctr = [0, 1, 1, 1], key = [0, 0, 0, 0] \<rparr>
   \<and> RNGState_seed 0 0 (\<lambda>i. 0) (\<lambda>i. 0) \<noteq> RNGState_seed 0 0 (\<lambda>i. 1) (\<lambda>i. 0)"
  by code_simp

subsection \<open>Applying a column-sorted COO matrix from the left\<close>

lemma wr_length: "wr xs i v = Inr ys \<Longrightarrow> length ys = length xs"
  by (auto simp: wr_def split: if_splits)

lemma set_colptr_range_length:
  "set_colptr_range j limit col_start ell cp = Inr cp' \<Longrightarrow> length cp' = length cp"
proof (induction j limit col_start ell cp rule: set_colptr_range.induct)
  case (1 j limit col_start ell cp)
  show ?case
  proof (cases "j \<le> limit")
    case True
    with "1.prems" obtain cp1 where w: "wr cp (j - col_start) ell = Inr cp1"
      and r: "set_colptr_range (j + 1) limit col_start ell cp1 = Inr cp'"
      by (subst (asm) set_colptr_range.simps) (auto split: sum.splits)
    from "1.IH" [OF True w r] wr_length [OF w] show ?thesis by simp
  next
    case False
    with "1.prems" show ?thesis
      by (subst (asm) set_colptr_range.simps) simp
  qed
qed

lemma set_filtered_colptr_loop_length:
  "set_filtered_colptr_loop nz cidx col_start col_end ell prev_col cp = Inr cp'
     \<Longrightarrow> length cp' = length cp"
proof (induction nz cidx col_start col_end ell prev_col cp rule: set_filtered_colptr_loop.induct)
  case (1 nz cidx col_start col_end ell prev_col cp)
  show ?case
  proof (cases "ell < nz")
    case True
    with "1.prems" obtain curr where c: "rd cidx ell = Inr curr"
      by (subst (asm) set_filtered_colptr_loop.simps) (auto split: sum.splits)
    show ?thesis
    proof (cases "curr < col_start")
      case lt: True
      with "1.prems" True c
      have "set_filtered_colptr_loop nz cidx col_start col_end (ell + 1) prev_col cp = Inr cp'"
        by (subst (asm) set_filtered_colptr_loop.simps) simp
      from "1.IH"(1) [OF True c lt this] show ?thesis .
    next
      case ge: False
      with "1.prems" True c obtain cp1 where
        s: "set_colptr_range (prev_col + 1) (min curr col_end) col_start ell cp = Inr cp1"
        and r: "set_filtered_colptr_loop nz cidx col_start col_end (ell + 1) curr cp1 = Inr cp'"
        by (subst (asm) set_filtered_colptr_loop.simps) (auto split: sum.splits)
      from "1.IH"(2) [OF True c ge s r] set_colptr_range_length [OF s] show ?thesis by simp
    qed
  next
    case False
    with "1.prems" show ?thesis
      by (subst (asm) set_filtered_colptr_loop.simps) simp
  qed
qed

lemma csc_cols_loop_fails:
  "0 \<le> j \<Longrightarrow> j < width \<Longrightarrow> int (length cp) \<le> width
     \<Longrightarrow> \<exists>e. csc_cols_loop vs rowidxs row_start row_end cp width j st = Inl e"
proof (induction vs rowidxs row_start row_end cp width j st rule: csc_cols_loop.induct)
  case (1 vs rowidxs row_start row_end cp width j st)
  show ?case
  proof (cases "rd cp j")
    case (Inl e)
    with "1.prems" show ?thesis by (subst csc_cols_loop.simps) simp
  next
    case lo: (Inr lo)
    show ?thesis
    proof (cases "rd cp (j + 1)")
      case (Inl e)
      with lo "1.prems" show ?thesis by (subst csc_cols_loop.simps) simp
    next
      case hi: (Inr hi)
      then have "j + 1 < int (length cp)" by (auto simp: rd_def in_range_def split: if_splits)
      with "1.prems" have next_ok: "0 \<le> j + 1" "j + 1 < width" by auto
      show ?thesis
      proof (cases "csc_col_loop vs rowidxs row_start row_end lo hi st")
        case (Inl e)
        with lo hi "1.prems" show ?thesis by (subst csc_cols_loop.simps) simp
      next
        case st': (Inr st')
        from "1.IH" [OF "1.prems"(2) lo hi st' next_ok "1.prems"(3)]
        obtain e where "csc_cols_loop vs rowidxs row_start row_end cp width (j + 1) st' = Inl e" ..
        with lo hi st' "1.prems" show ?thesis by (subst csc_cols_loop.simps) simp
      qed
    qed
  qed
qed

lemma apply_coo_left_csc_fails:
  assumes "1 \<le> m"
  shows "\<exists>e. apply_coo_left_csc alpha layout_A layout_B d n m S0 row_offset col_offset A lda B ldb = Inl e"
proof -
  have len: "\<And>cp cp'. set_filtered_colptr (nnz S0) (cols S0) col_offset (col_offset + m) cp = Inr cp'
     \<Longrightarrow> length cp' = length cp"
    unfolding set_filtered_colptr_def by (rule set_filtered_colptr_loop_length)
  have fails: "\<exists>e. set_filtered_csc_from_cscoo (vals S0) (rows S0) (cols S0) (nnz S0)
             col_offset (col_offset + m) row_offset (row_offset + d) nv nr (replicate (nat m) 0) = Inl e"
    for nv :: "'a list" and nr
  proof (cases "set_filtered_colptr (nnz S0) (cols S0) col_offset (col_offset + m) (replicate (nat m) 0)")
    case (Inl e)
    then show ?thesis by (simp add: set_filtered_csc_from_cscoo_def)
  next
    case (Inr cp)
    from len [OF Inr] assms have "int (length cp) \<le> m" by simp
    from csc_cols_loop_fails [OF _ _ this, of 0 "vals S0" "rows S0" row_offset "row_offset + d" "(nv, nr, 0)"] assms
    obtain e where "csc_cols_loop (vals S0) (rows S0) row_offset (row_offset + d) cp m 0 (nv, nr, 0) = Inl e"
      by auto
    with Inr show ?thesis by (simp add: set_filtered_csc_from_cscoo_def)
  qed
  show ?thesis
  proof (cases "nnz S0 < 0")
    case True
    then show ?thesis by (simp add: apply_coo_left_csc_def vector_alloc_def Let_def)
  next
    case False
    from fails [of "replicate (nat (nnz S0)) 0" "replicate (nat (nnz S0)) 0"]
    obtain e where "set_filtered_csc_from_cscoo (vals S0) (rows S0) (cols S0) (nnz S0)
             col_offset (col_offset + m) row_offset (row_offset + d) (replicate (nat (nnz S0)) 0) (replicate (nat (nnz S0)) 0) (replicate (nat m) 0) = Inl e" ..
    with False assms show ?thesis
      by (simp add: apply_coo_left_csc_def vector_alloc_def Let_def)
  qed
qed

text \<open>
  C1 (the code departs from the claim).  The claim: on exit from the sparse left
  sketch-multiply, \<open>B\<close> is \<open>alpha * op(submat(S)) * op(A) + beta * B\<close>.  With the 1 by 1
  operator \<open>S = (2)\<close>, flagged as column-sorted, \<open>A = (3)\<close>, \<open>B = (5)\<close> and \<open>alpha = 1\<close>, that
  is \<open>6 + 5 * beta\<close>.  \<open>apply_coo_left\<close> allocates the column pointers \<^verbatim>\<open>S_colptr\<close> with
  \<open>m\<close> cells and \<^verbatim>\<open>set_filtered_csc_from_cscoo\<close> reads cell \<open>m\<close> of them: the call runs
  outside the allocation and assigns no product to \<open>B\<close> (for every \<open>m \<ge> 1\<close>, lemma
  \<open>apply_coo_left_csc_fails\<close>).  Given \<open>m + 1\<close> cells, \<^verbatim>\<open>set_filtered_colptr\<close> leaves the
  pointers after the column of the last nonzero at their initial 0, and the extracted window
  is empty.  \<open>apply_coo_left\<close> takes no \<open>beta\<close>; \<^verbatim>\<open>lskges\<close> passes \<open>beta\<close> to
  \<^verbatim>\<open>left_spmm\<close>, which is not in the sources at hand.
\<close>

theorem apply_coo_left_reads_past_colptr:
  "apply_coo_left apply_cscoo_submat_to_vector_from_left (1 :: real) ColMajor ColMajor 1 1 1
     \<lparr> n_rows = 1, n_cols = 1, index_base = Zero, own_memory = False, nnz = 1,
       vals = [2], rows = [0], cols = [0], sort_order = CSC, can_reserve = True \<rparr>
     0 0 [3] 1 [5] 1 = Inl OutOfBounds
   \<and> set_filtered_csc_from_cscoo [2 :: real] [0] [0] 1 0 1 0 1 [0] [0] [0, 0]
       = Inr ([0], [0], [0, 0], 0)"
  by code_simp

subsection \<open>What \<open>apply_coo_left\<close> leaves in the operator\<close>

lemma sort_func_less: "sort_func s y x \<longleftrightarrow> key_of s y < key_of s x"
  by (auto simp: sort_func_def key_of_def less_prod_def)

lemma insert_by_insort: "insert_by (sort_func s) x ys = insort_key (key_of s) x ys"
  by (induction ys) (auto simp: sort_func_less)

lemma std_sort_sort_key: "std_sort (sort_func s) xs = sort_key (key_of s) xs"
  by (induction xs) (simp_all add: std_sort_def insert_by_insort sort_key_def)

lemma sorted_wrt_sort_func:
  "sorted_wrt (\<lambda>a b. \<not> sort_func s b a) xs \<longleftrightarrow> sorted (map (key_of s) xs)"
  by (simp add: sort_func_less sorted_map not_less)

lemma key_of_inj: "key_of s a = key_of s b \<longleftrightarrow> coord a = coord b"
  by (auto simp: key_of_def coord_def)

lemma distinct_key_of: "distinct (map (key_of s) xs) \<longleftrightarrow> distinct (map coord xs)"
  by (simp add: distinct_map inj_on_def key_of_inj)

lemma sorted_perm_unique:
  assumes "sorted (map f xs)" "sorted (map f ys)" "mset xs = mset ys" "distinct (map f xs)"
  shows "xs = ys"
proof -
  have m: "mset (map f xs) = mset (map f ys)" using assms(3) by simp
  then have d: "distinct (map f ys)" using assms(4) by (metis distinct_count_atmost_1 mset_eq_setD set_mset_mset)
  have "set (map f xs) = set (map f ys)" using m by (rule mset_eq_setD)
  with assms(1,2,4) d have e: "map f xs = map f ys"
    by (intro sorted_distinct_set_unique)
  have inj: "inj_on f (set xs \<union> set ys)"
    using assms(3,4) by (metis distinct_map mset_eq_setD sup.idem)
  from e inj show ?thesis by (simp add: inj_on_map_eq_map)
qed

lemma sort_back:
  assumes "sorted_wrt (\<lambda>a b. \<not> sort_func s b a) xs" "distinct (map coord xs)"
  shows "std_sort (sort_func s) (std_sort (sort_func s') xs) = xs"
proof -
  let ?ys = "sort_key (key_of s) (sort_key (key_of s') xs)"
  have "sorted (map (key_of s) ?ys)" by simp
  moreover have "sorted (map (key_of s) xs)" using assms(1) by (simp add: sorted_wrt_sort_func)
  moreover have "mset xs = mset ?ys" by simp
  moreover have "distinct (map (key_of s) xs)" using assms(2) by (simp add: distinct_key_of)
  ultimately have "xs = ?ys" by (intro sorted_perm_unique [where f = "key_of s"])
  then show ?thesis by (simp add: std_sort_sort_key)
qed

lemma length_std_sort: "length (std_sort (sort_func s) xs) = length xs"
  by (simp add: std_sort_sort_key)

lemma mset_std_sort: "mset (std_sort (sort_func s) xs) = mset xs"
  by (simp add: std_sort_sort_key)

lemma sort_coo_data_None: "sort_coo_data None_sort M = Inr (M\<lparr> sort_order := None_sort \<rparr>)"
  by (simp add: sort_coo_data_def sort_coo_arrays_def bind_err_def)

lemma sort_coo_data_Inr:
  assumes "s \<noteq> None_sort" and "sort_coo_data s M = Inr M'"
  shows "0 \<le> nnz M" and "nat (nnz M) \<le> length (vals M)" and "nat (nnz M) \<le> length (rows M)"
    and "nat (nnz M) \<le> length (cols M)"
    and "M' = M\<lparr> vals := map (\<lambda>t. snd (snd t)) (std_sort (sort_func s) (nonzeros M))
                       @ drop (nat (nnz M)) (vals M),
                 rows := map fst (std_sort (sort_func s) (nonzeros M)) @ drop (nat (nnz M)) (rows M),
                 cols := map (\<lambda>t. fst (snd t)) (std_sort (sort_func s) (nonzeros M))
                       @ drop (nat (nnz M)) (cols M),
                 sort_order := s \<rparr>"
  using assms
  by (auto simp: sort_coo_data_def sort_coo_arrays_def bind_err_def nonzeros_def Let_def
      split: if_splits)

lemma nonzeros_unpacked:
  assumes "length ts = nat (nnz M)"
  shows "nonzeros (M\<lparr> vals := map (\<lambda>t. snd (snd t)) ts @ dv,
                    rows := map fst ts @ dr,
                    cols := map (\<lambda>t. fst (snd t)) ts @ dc,
                    sort_order := s \<rparr>) = ts"
proof -
  have "map (\<lambda>ell. ((map fst ts @ dr) ! ell, (map (\<lambda>t. fst (snd t)) ts @ dc) ! ell,
                    (map (\<lambda>t. snd (snd t)) ts @ dv) ! ell)) [0..<length ts]
        = map (\<lambda>ell. ts ! ell) [0..<length ts]"
    by (rule map_cong) (auto simp: nth_append)
  also have "\<dots> = ts" by (rule map_nth)
  finally show ?thesis using assms by (simp add: nonzeros_def)
qed

lemma nonzeros_sorted:
  assumes "s \<noteq> None_sort" and "sort_coo_data s M = Inr M'"
  shows "nonzeros M' = std_sort (sort_func s) (nonzeros M)"
proof -
  have l: "length (std_sort (sort_func s) (nonzeros M)) = nat (nnz M)"
    by (simp add: length_std_sort nonzeros_def)
  show ?thesis
    unfolding sort_coo_data_Inr(5) [OF assms] by (rule nonzeros_unpacked [OF l])
qed

lemma unpack_nonzeros:
  assumes "nat (nnz M) \<le> length (vals M)" "nat (nnz M) \<le> length (rows M)"
    "nat (nnz M) \<le> length (cols M)"
  shows "map (\<lambda>t. snd (snd t)) (nonzeros M) = take (nat (nnz M)) (vals M)"
    and "map fst (nonzeros M) = take (nat (nnz M)) (rows M)"
    and "map (\<lambda>t. fst (snd t)) (nonzeros M) = take (nat (nnz M)) (cols M)"
  using assms by (auto simp: nonzeros_def list_eq_iff_nth_eq)

lemma sort_coo_data_twice:
  assumes s1: "s1 \<noteq> None_sort" "sort_coo_data s1 M = Inr M1"
    and s2: "s2 \<noteq> None_sort" "sort_coo_data s2 M1 = Inr M2"
    and restore: "std_sort (sort_func s2) (std_sort (sort_func s1) (nonzeros M)) = nonzeros M"
  shows "M2 = M\<lparr> sort_order := s2 \<rparr>"
proof -
  note a = sort_coo_data_Inr [OF s1]
  note b = sort_coo_data_Inr [OF s2]
  have n1: "nnz M1 = nnz M" using a(5) by simp
  have l: "length (std_sort (sort_func s1) (nonzeros M)) = nat (nnz M)"
    by (simp add: length_std_sort nonzeros_def)
  have d: "drop (nat (nnz M)) (vals M1) = drop (nat (nnz M)) (vals M)"
    "drop (nat (nnz M)) (rows M1) = drop (nat (nnz M)) (rows M)"
    "drop (nat (nnz M)) (cols M1) = drop (nat (nnz M)) (cols M)"
    using a(5) l by simp_all
  have nz: "std_sort (sort_func s2) (nonzeros M1) = nonzeros M"
    using nonzeros_sorted [OF s1] restore by simp
  have "M2 = M1\<lparr> vals := take (nat (nnz M)) (vals M) @ drop (nat (nnz M)) (vals M),
                 rows := take (nat (nnz M)) (rows M) @ drop (nat (nnz M)) (rows M),
                 cols := take (nat (nnz M)) (cols M) @ drop (nat (nnz M)) (cols M),
                 sort_order := s2 \<rparr>"
    using b(5) unfolding nz n1 d unpack_nonzeros [OF a(2,3,4)] .
  also have "\<dots> = M\<lparr> sort_order := s2 \<rparr>"
    using a(5) by simp
  finally show ?thesis .
qed

lemma apply_coo_left_Inr:
  assumes "apply_coo_left kern alpha layout_A layout_B d n m S0 ro co A lda B ldb = Inr (S0', B')"
  shows "(sort_order S0 = CSC \<and> S0' = S0)
       \<or> (sort_order S0 \<noteq> CSC
           \<and> (\<exists>S1. sort_coo_data CSC S0 = Inr S1 \<and> sort_coo_data (sort_order S0) S1 = Inr S0'))"
  using assms
  by (auto simp: apply_coo_left_def Let_def split: sum.splits if_splits)

text \<open>
  C9 (as stated, refuted).  The claim: whatever the sort order with which \<open>S0\<close> enters
  \<open>apply_coo_left\<close>, on return its sort field and the order of its arrays are those of
  entry.  A matrix that enters flagged \<open>None\<close> with the nonzeros \<open>(1, 1, 7)\<close>, \<open>(0, 0, 9)\<close>
  returns flagged \<open>None\<close> with its arrays in column-sorted order: \<^verbatim>\<open>sort_coo_data\<close> with
  the order \<open>None\<close> returns at once, and nothing undoes the sort to CSC.  (The window has
  width 0 and lies at the right edge of the matrix, so that the kernel returns.)
\<close>

theorem apply_coo_left_unsorted_not_restored:
  "apply_coo_left apply_cscoo_submat_to_vector_from_left (1 :: real) ColMajor ColMajor 2 1 0
     \<lparr> n_rows = 2, n_cols = 2, index_base = Zero, own_memory = False, nnz = 2,
       vals = [7, 9], rows = [1, 0], cols = [1, 0], sort_order = None_sort, can_reserve = True \<rparr>
     0 2 [] 1 [5, 6] 2
   = Inr (\<lparr> n_rows = 2, n_cols = 2, index_base = Zero, own_memory = False, nnz = 2,
            vals = [9, 7], rows = [0, 1], cols = [0, 1], sort_order = None_sort,
            can_reserve = True \<rparr>, [5, 6])
   \<and> rows \<lparr> n_rows = 2, n_cols = 2, index_base = Zero, own_memory = False, nnz = 2,
            vals = [9, 7 :: real], rows = [0, 1 :: int], cols = [0, 1], sort_order = None_sort,
            can_reserve = True \<rparr>
     \<noteq> rows \<lparr> n_rows = 2, n_cols = 2, index_base = Zero, own_memory = False, nnz = 2,
            vals = [7, 9 :: real], rows = [1, 0 :: int], cols = [1, 0], sort_order = None_sort,
            can_reserve = True \<rparr>"
  by code_simp

text \<open>
  C9 (as amended).  Whenever \<open>apply_coo_left\<close> returns, with whatever kernel for the
  operands that are not flagged as column-sorted: the sort field of \<open>S0\<close> is the one of
  entry and the nonzeros are those of entry, as a multiset.  If \<open>S0\<close> entered flagged CSC, or
  flagged CSR with its nonzeros in CSR order and no two of them at the same coordinate, then
  \<open>S0\<close> is as on entry, arrays included.  If \<open>S0\<close> entered flagged \<open>None\<close>, its arrays are
  left as the sort to CSC made them.  Only \<open>S0\<close> and the buffer of \<open>B\<close> are results of the
  function.
\<close>

theorem apply_coo_left_frame:
  assumes "apply_coo_left kern alpha layout_A layout_B d n m S0 ro co A lda B ldb = Inr (S0', B')"
  shows "sort_order S0' = sort_order S0
       \<and> mset (nonzeros S0') = mset (nonzeros S0)
       \<and> (sort_order S0 = CSC
            \<or> (sort_order S0 = CSR
                \<and> sorted_wrt (\<lambda>a b. \<not> sort_func CSR b a) (nonzeros S0)
                \<and> distinct (map coord (nonzeros S0)))
          \<longrightarrow> S0' = S0)
       \<and> (sort_order S0 = None_sort \<longrightarrow> sort_coo_data CSC S0 = Inr (S0'\<lparr> sort_order := CSC \<rparr>))"
proof (cases "sort_order S0 = CSC")
  case True
  with apply_coo_left_Inr [OF assms] show ?thesis by auto
next
  case False
  with apply_coo_left_Inr [OF assms] obtain S1 where
    s1: "sort_coo_data CSC S0 = Inr S1" and s2: "sort_coo_data (sort_order S0) S1 = Inr S0'"
    by auto
  have n1: "nonzeros S1 = std_sort (sort_func CSC) (nonzeros S0)"
    using nonzeros_sorted [OF _ s1] by simp
  have o1: "sort_order S1 = CSC" and f1: "S1\<lparr> sort_order := sort_order S0 \<rparr> = S1\<lparr> sort_order := sort_order S0 \<rparr>"
    using sort_coo_data_Inr(5) [OF _ s1] by simp_all
  show ?thesis
  proof (cases "sort_order S0")
    case CSC
    with False show ?thesis by simp
  next
    case CSR
    have n2: "nonzeros S0' = std_sort (sort_func CSR) (nonzeros S1)"
      using nonzeros_sorted [OF _ s2 [unfolded CSR]] by simp
    have srt: "sort_order S0' = CSR"
      using sort_coo_data_Inr(5) [OF _ s2 [unfolded CSR]] by simp
    have ms: "mset (nonzeros S0') = mset (nonzeros S0)"
      by (simp add: n1 n2 mset_std_sort)
    have rest: "S0' = S0"
      if "sorted_wrt (\<lambda>a b. \<not> sort_func CSR b a) (nonzeros S0)" "distinct (map coord (nonzeros S0))"
    proof -
      have "S0' = S0\<lparr> sort_order := CSR \<rparr>"
        by (rule sort_coo_data_twice [OF _ s1 _ s2 [unfolded CSR]]) (simp_all add: sort_back [OF that])
      with CSR show ?thesis by simp
    qed
    from srt ms rest CSR show ?thesis by auto
  next
    case None_sort
    have e: "S0' = S1\<lparr> sort_order := None_sort \<rparr>"
      using s2 unfolding None_sort sort_coo_data_None by simp
    have "nonzeros S0' = nonzeros S1" unfolding e by (simp add: nonzeros_def)
    then have ms: "mset (nonzeros S0') = mset (nonzeros S0)" by (simp add: n1 mset_std_sort)
    have "S0'\<lparr> sort_order := CSC \<rparr> = S1" unfolding e using o1 by simp
    with s1 ms e None_sort show ?thesis by simp
  qed
qed

text \<open>
  The theorem at a matrix that enters flagged CSR with the nonzeros \<open>(0, 1, 7)\<close>,
  \<open>(1, 0, 9)\<close>: the sort to CSC exchanges them, and the matrix returns as it entered.
\<close>

theorem apply_coo_left_frame_witness:
  "apply_coo_left apply_cscoo_submat_to_vector_from_left (1 :: real) ColMajor ColMajor 2 1 0
     \<lparr> n_rows = 2, n_cols = 2, index_base = Zero, own_memory = False, nnz = 2,
       vals = [7, 9], rows = [0, 1], cols = [1, 0], sort_order = CSR, can_reserve = True \<rparr>
     0 2 [] 1 [5, 6] 2
   = Inr (\<lparr> n_rows = 2, n_cols = 2, index_base = Zero, own_memory = False, nnz = 2,
            vals = [7, 9], rows = [0, 1], cols = [1, 0], sort_order = CSR, can_reserve = True \<rparr>,
          [5, 6])
   \<and> sorted_wrt (\<lambda>a b. \<not> sort_func CSR b a)
        (nonzeros \<lparr> n_rows = 2, n_cols = 2, index_base = Zero, own_memory = False, nnz = 2,
           vals = [7, 9 :: real], rows = [0, 1], cols = [1, 0], sort_order = CSR,
           can_reserve = True \<rparr>)
   \<and> distinct (map coord
        (nonzeros \<lparr> n_rows = 2, n_cols = 2, index_base = Zero, own_memory = False, nnz = 2,
           vals = [7, 9 :: real], rows = [0, 1], cols = [1, 0], sort_order = CSR,
           can_reserve = True \<rparr>))
   \<and> sort_coo_data CSC
        \<lparr> n_rows = 2, n_cols = 2, index_base = Zero, own_memory = False, nnz = 2,
          vals = [7, 9 :: real], rows = [0, 1], cols = [1, 0], sort_order = CSR,
          can_reserve = True \<rparr>
      = Inr \<lparr> n_rows = 2, n_cols = 2, index_base = Zero, own_memory = False, nnz = 2,
          vals = [9, 7], rows = [1, 0], cols = [0, 1], sort_order = CSC, can_reserve = True \<rparr>"
proof -
  let ?S = "\<lparr> n_rows = 2, n_cols = 2, index_base = Zero, own_memory = False, nnz = 2,
       vals = [7, 9 :: real], rows = [0, 1], cols = [1, 0], sort_order = CSR, can_reserve = True \<rparr>"
  have nz: "nonzeros ?S = [(0, 1, 7), (1, 0, 9)]"
    by code_simp
  have h1: "sorted_wrt (\<lambda>a b. \<not> sort_func CSR b a) (nonzeros ?S)"
    unfolding nz by (simp add: sort_func_def)
  have h2: "distinct (map coord (nonzeros ?S))"
    unfolding nz by (simp add: coord_def)
  have s: "sort_coo_data CSC ?S
      = Inr \<lparr> n_rows = 2, n_cols = 2, index_base = Zero, own_memory = False, nnz = 2,
          vals = [9, 7], rows = [1, 0], cols = [0, 1], sort_order = CSC, can_reserve = True \<rparr>"
    by code_simp
  have r: "apply_coo_left apply_cscoo_submat_to_vector_from_left (1 :: real)
      ColMajor ColMajor 2 1 0 ?S 0 2 [] 1 [5, 6] 2 = Inr (?S, [5, 6])"
    by code_simp
  from apply_coo_left_frame [OF r] r h1 h2 s show ?thesis by simp
qed

subsection \<open>Splitting a run of repeated Fisher-Yates sampling\<close>

lemma fisher_yates_steps_counter:
  "snd (fisher_yates_steps gen ky d i todo perm c) = c + of_nat todo"
  by (induction todo arbitrary: i perm c) (simp_all add: Let_def case_prod_beta)

lemma fisher_yates_steps_length:
  "length (fst (fisher_yates_steps gen ky d i todo perm c)) = todo"
  by (induction todo arbitrary: i perm c) (simp_all add: Let_def case_prod_beta)

lemma repeated_fisher_yates_counter:
  "counter (snd (repeated_fisher_yates gen k d r s)) = counter s + of_nat (r * k)"
  by (induction r arbitrary: s)
     (simp_all add: case_prod_beta fisher_yates_steps_counter algebra_simps)

lemma repeated_fisher_yates_length:
  "length (fst (repeated_fisher_yates gen k d r s)) = r * k"
  by (induction r arbitrary: s)
     (simp_all add: case_prod_beta fisher_yates_steps_length)

text \<open>
  C2.  For every domain size \<open>d\<close>, sample size \<open>k \<le> d\<close>, repetition counts \<open>r1\<close> and
  \<open>r2\<close> and state \<open>s\<close>: one call of \<open>repeated_fisher_yates\<close> for \<open>r1 + r2\<close> repetitions
  returns the indices of the call for \<open>r1\<close> repetitions from \<open>s\<close> followed by those of the
  call for \<open>r2\<close> repetitions from the state that the first call returned, and the same
  final state; the counter has advanced by \<open>(r1 + r2) * k\<close> in both, so the two
  advancements differ by no unit at all.
\<close>

theorem repeated_fisher_yates_split:
  assumes "k \<le> d"
  shows "repeated_fisher_yates gen k d (r1 + r2) s =
     (case repeated_fisher_yates gen k d r1 s of
        (out1, s1) \<Rightarrow>
          (case repeated_fisher_yates gen k d r2 s1 of
             (out2, s2) \<Rightarrow> (out1 @ out2, s2)))
   \<and> counter (snd (repeated_fisher_yates gen k d (r1 + r2) s))
       = counter s + of_nat ((r1 + r2) * k)"
proof
  show "repeated_fisher_yates gen k d (r1 + r2) s =
     (case repeated_fisher_yates gen k d r1 s of
        (out1, s1) \<Rightarrow>
          (case repeated_fisher_yates gen k d r2 s1 of
             (out2, s2) \<Rightarrow> (out1 @ out2, s2)))"
    by (induction r1 arbitrary: s) (simp_all split: prod.splits)
  show "counter (snd (repeated_fisher_yates gen k d (r1 + r2) s))
       = counter s + of_nat ((r1 + r2) * k)"
    by (rule repeated_fisher_yates_counter)
qed

text \<open>
  The theorem at \<open>d = 5\<close>, \<open>k = 2\<close>, \<open>r1 = 1\<close>, \<open>r2 = 2\<close>, with a generator that returns
  seven times the counter plus the key.
\<close>

theorem repeated_fisher_yates_split_witness:
  "(2 :: nat) \<le> 5
   \<and> repeated_fisher_yates (\<lambda>c k. unat c * 7 + k) 2 5 1 \<lparr> counter = 10, gen_key = 3 \<rparr>
       = ([3, 1], \<lparr> counter = 12, gen_key = 3 \<rparr>)
   \<and> repeated_fisher_yates (\<lambda>c k. unat c * 7 + k) 2 5 2 \<lparr> counter = 12, gen_key = 3 \<rparr>
       = ([2, 3, 1, 0], \<lparr> counter = 16, gen_key = 3 \<rparr>)
   \<and> repeated_fisher_yates (\<lambda>c k. unat c * 7 + k) 2 5 (1 + 2) \<lparr> counter = 10, gen_key = 3 \<rparr>
       = ([3, 1, 2, 3, 1, 0], \<lparr> counter = 16, gen_key = 3 \<rparr>)"
proof -
  have a: "repeated_fisher_yates (\<lambda>c k. unat c * 7 + k) 2 5 1 \<lparr> counter = 10, gen_key = 3 \<rparr>
       = ([3, 1], \<lparr> counter = 12, gen_key = 3 \<rparr>)"
    by code_simp
  have b: "repeated_fisher_yates (\<lambda>c k. unat c * 7 + k) 2 5 2 \<lparr> counter = 12, gen_key = 3 \<rparr>
       = ([2, 3, 1, 0], \<lparr> counter = 16, gen_key = 3 \<rparr>)"
    by code_simp
  have h: "(2 :: nat) \<le> 5" by simp
  note t = repeated_fisher_yates_split [OF h, of "\<lambda>c k. unat c * 7 + k" 1 2
      "\<lparr> counter = 10, gen_key = 3 \<rparr>", THEN conjunct1]
  have c: "repeated_fisher_yates (\<lambda>c k. unat c * 7 + k) 2 5 (1 + 2) \<lparr> counter = 10, gen_key = 3 \<rparr>
       = ([3, 1, 2, 3, 1, 0], \<lparr> counter = 16, gen_key = 3 \<rparr>)"
    by (simp only: t a b prod.case append_Cons append_Nil)
  from h a b c show ?thesis by (intro conjI)
qed

subsection \<open>The dense sketching functions on an operator with no buffer\<close>

lemma cell_index_nonneg:
  "0 \<le> ld \<Longrightarrow> 0 \<le> fst (cell_index lay ld idx) \<and> 0 \<le> snd (cell_index lay ld idx)"
  by (cases "ld = 0") (auto simp: cell_index_def pos_imp_zdiv_nonneg_iff)

lemma blas_gemm_cong:
  assumes "0 \<le> ldc"
    and "\<And>i l. 0 \<le> i \<Longrightarrow> i < m \<Longrightarrow> 0 \<le> l \<Longrightarrow> l < k
            \<Longrightarrow> op_at lay opA A offA lda i l = op_at lay opA A' offA' lda' i l"
    and "\<And>l j. 0 \<le> l \<Longrightarrow> l < k \<Longrightarrow> 0 \<le> j \<Longrightarrow> j < n
            \<Longrightarrow> op_at lay opB B offB ldb l j = op_at lay opB B' offB' ldb' l j"
  shows "blas_gemm lay opA opB m n k alpha A offA lda B offB ldb beta C ldc
       = blas_gemm lay opA opB m n k alpha A' offA' lda' B' offB' ldb' beta C ldc"
  unfolding blas_gemm_def
proof (rule map_cong [OF refl], goal_cases)
  case (1 idx)
  obtain i j where ij: "cell_index lay ldc idx = (i, j)" by (cases "cell_index lay ldc idx")
  with cell_index_nonneg [OF assms(1), of lay idx] have nn: "0 \<le> i" "0 \<le> j" by simp_all
  show ?case
  proof (cases "i < m \<and> j < n")
    case True
    have "map (\<lambda>l. op_at lay opA A offA lda i (int l) * op_at lay opB B offB ldb (int l) j) [0..<nat k]
        = map (\<lambda>l. op_at lay opA A' offA' lda' i (int l) * op_at lay opB B' offB' ldb' (int l) j) [0..<nat k]"
      by (rule map_cong [OF refl]) (use True nn assms(2,3) in auto)
    then show ?thesis by (simp only: ij prod.case True if_True)
  next
    case False
    then show ?thesis by (auto simp: ij)
  qed
qed

lemma mat_at_offset:
  "mat_at lay buf (fst (offset_and_ldim lay NR NC ro co)) (snd (offset_and_ldim lay NR NC ro co)) r c
     = mat_at lay buf 0 (snd (offset_and_ldim lay NR NC ro co)) (ro + r) (co + c)"
  by (simp add: mat_at_def offset_and_ldim_def algebra_simps)

lemma index_bound:
  fixes r c nr nc :: int
  assumes "0 \<le> r" "r < nr" "0 \<le> c" "c < nc"
  shows "r + c * nr < nr * nc" and "0 \<le> r + c * nr"
proof -
  have "c * nr \<le> (nc - 1) * nr"
    using assms by (intro mult_right_mono) auto
  then show "r + c * nr < nr * nc" using assms by (simp add: algebra_simps)
  show "0 \<le> r + c * nr" using assms by simp
qed

lemma dense_buffer_nth:
  assumes "0 \<le> x" "x < nr * nc"
  shows "dense_buffer lay nr nc f ! nat x =
           (case cell_index lay (if lay = ColMajor then nr else nc) (nat x) of (i, j) \<Rightarrow> f i j)"
proof -
  have "nat x < length [0..<nat (nr * nc)]" using assms by simp
  then show ?thesis unfolding dense_buffer_def by (simp only: nth_map nth_upt add_0 length_upt minus_nat.diff_0)
qed

lemma mat_at_dense_buffer:
  assumes "0 \<le> r" "r < nr" "0 \<le> c" "c < nc"
  shows "mat_at lay (dense_buffer lay nr nc f) 0 (if lay = ColMajor then nr else nc) r c = f r c"
proof (cases lay)
  case ColMajor
  note b = index_bound [OF assms]
  have i: "int (nat (r + c * nr)) = r + c * nr" using b by simp
  have md: "(r + c * nr) mod nr = r" "(r + c * nr) div nr = c"
    using assms by simp_all
  have "mat_at lay (dense_buffer lay nr nc f) 0 (if lay = ColMajor then nr else nc) r c
      = dense_buffer lay nr nc f ! nat (r + c * nr)"
    by (simp add: mat_at_def ColMajor)
  also have "\<dots> = f r c"
    unfolding dense_buffer_nth [OF b(2,1)]
    by (simp only: ColMajor cell_index_def i md simp_thms if_True prod.case)
  finally show ?thesis .
next
  case RowMajor
  have b: "r * nc + c < nr * nc" "0 \<le> r * nc + c"
    using index_bound [OF assms(3,4,1,2)] by (simp_all add: algebra_simps)
  have i: "int (nat (r * nc + c)) = r * nc + c" using b by simp
  have md: "(r * nc + c) mod nc = c" "(r * nc + c) div nc = r"
    using assms by simp_all
  have "mat_at lay (dense_buffer lay nr nc f) 0 (if lay = ColMajor then nr else nc) r c
      = dense_buffer lay nr nc f ! nat (r * nc + c)"
    by (simp add: mat_at_def RowMajor)
  also have "\<dots> = f r c"
    unfolding dense_buffer_nth [OF b(2,1)]
    by (simp only: RowMajor cell_index_def i md Layout.distinct simp_thms if_False prod.case)
  finally show ?thesis .
qed

lemma snd_offset_and_ldim:
  "snd (offset_and_ldim lay NR NC ro co) = (if lay = ColMajor then NR else NC)"
  by (simp add: offset_and_ldim_def)

lemma mat_at_window:
  assumes "window_in_operator S nr nc ro co" and "0 \<le> r" "r < nr" "0 \<le> c" "c < nc"
  shows "mat_at (layout S) (dense_buffer (layout S) nr nc (\<lambda>i j. e (ro + i) (co + j))) 0
           (if layout S = ColMajor then nr else nc) r c
       = mat_at (layout S) (dense_buffer (layout S) (op_n_rows S) (op_n_cols S) e)
           (fst (offset_and_ldim (layout S) (op_n_rows S) (op_n_cols S) ro co))
           (snd (offset_and_ldim (layout S) (op_n_rows S) (op_n_cols S) ro co)) r c"
proof -
  let ?full = "dense_buffer (layout S) (op_n_rows S) (op_n_cols S) e"
  have in_full: "0 \<le> ro + r" "ro + r < op_n_rows S" "0 \<le> co + c" "co + c < op_n_cols S"
    using assms by (auto simp: window_in_operator_def)
  have "mat_at (layout S) ?full
           (fst (offset_and_ldim (layout S) (op_n_rows S) (op_n_cols S) ro co))
           (snd (offset_and_ldim (layout S) (op_n_rows S) (op_n_cols S) ro co)) r c
      = mat_at (layout S) ?full 0
           (snd (offset_and_ldim (layout S) (op_n_rows S) (op_n_cols S) ro co)) (ro + r) (co + c)"
    by (rule mat_at_offset)
  also have "\<dots> = mat_at (layout S) ?full 0
           (if layout S = ColMajor then op_n_rows S else op_n_cols S) (ro + r) (co + c)"
    by (simp only: snd_offset_and_ldim)
  also have "\<dots> = e (ro + r) (co + c)"
    by (rule mat_at_dense_buffer [OF in_full])
  finally have rhs: "mat_at (layout S) ?full
           (fst (offset_and_ldim (layout S) (op_n_rows S) (op_n_cols S) ro co))
           (snd (offset_and_ldim (layout S) (op_n_rows S) (op_n_cols S) ro co)) r c
      = e (ro + r) (co + c)" .
  have lhs: "mat_at (layout S) (dense_buffer (layout S) nr nc (\<lambda>i j. e (ro + i) (co + j))) 0
           (if layout S = ColMajor then nr else nc) r c = e (ro + r) (co + c)"
    by (rule mat_at_dense_buffer [OF assms(2-5)])
  show ?thesis by (simp only: lhs rhs)
qed

lemma op_at_window:
  assumes "window_in_operator S (fst (dims_before_op d m op)) (snd (dims_before_op d m op)) ro co"
    and "0 \<le> i" "i < d" "0 \<le> l" "l < m"
  shows "op_at (layout S) op
           (dense_buffer (layout S) (fst (dims_before_op d m op)) (snd (dims_before_op d m op))
              (\<lambda>i j. e (ro + i) (co + j))) 0
           (if layout S = ColMajor then fst (dims_before_op d m op) else snd (dims_before_op d m op))
           i l
       = op_at (layout S) op (dense_buffer (layout S) (op_n_rows S) (op_n_cols S) e)
           (fst (offset_and_ldim (layout S) (op_n_rows S) (op_n_cols S) ro co))
           (snd (offset_and_ldim (layout S) (op_n_rows S) (op_n_cols S) ro co)) i l"
proof (cases op)
  case NoTrans
  have dm: "dims_before_op d m op = (d, m)" by (simp add: NoTrans dims_before_op_def)
  have w: "window_in_operator S d m ro co" using assms(1) by (simp add: dm)
  have o: "\<And>buf off ld. op_at (layout S) op buf off ld i l = mat_at (layout S) buf off ld i l"
    by (simp add: op_at_def NoTrans)
  show ?thesis
    unfolding dm fst_conv snd_conv o by (rule mat_at_window [OF w assms(2-5)])
next
  case Trans
  have dm: "dims_before_op d m op = (m, d)" by (simp add: Trans dims_before_op_def)
  have w: "window_in_operator S m d ro co" using assms(1) by (simp add: dm)
  have o: "\<And>buf off ld. op_at (layout S) op buf off ld i l = mat_at (layout S) buf off ld l i"
    by (simp add: op_at_def Trans)
  show ?thesis
    unfolding dm fst_conv snd_conv o by (rule mat_at_window [OF w assms(4,5,2,3)])
qed

lemma offset_and_ldim_zero:
  "offset_and_ldim lay nr nc 0 0 = (0, if lay = ColMajor then nr else nc)"
  by (simp add: offset_and_ldim_def)

lemma add64_in_extent:
  "is_int64 e \<Longrightarrow> 0 \<le> x \<Longrightarrow> 0 \<le> y \<Longrightarrow> x + y \<le> e \<Longrightarrow> add64 x y = x + y \<and> add64 x 0 = x"
  by (simp add: add64_def wrap64_def is_int64_def)

text \<open>
  C3.  For every operator \<open>S\<close> with no buffer (its declared extents being values of
  \<^verbatim>\<open>int64_t\<close>), a nonnegative number of columns \<open>n\<close> of the data matrix and every offset at
  which the requested submatrix lies inside the declared shape of \<open>S\<close>: \<open>lskge3\<close>, which
  generates the submatrix alone into a temporary operator and runs on it at offset \<open>(0, 0)\<close>,
  returns what the same call returns on \<open>S\<close> fully materialized by \<open>fill_dense\<close>, where
  GEMM reads the window of the full buffer; in both storage layouts of \<open>S\<close>, both multiply
  layouts and both transpose settings of each operand.  The same holds of \<open>rskge3\<close>, for a
  nonnegative number of rows \<open>m'\<close> of the data matrix and its own dimensions, offsets and
  operands.  The dimension of the data matrix that is not shared with the operator (\<open>n\<close> for
  \<open>lskge3\<close>, \<open>m'\<close> for \<open>rskge3\<close>) is not bounded by the extents of \<open>S\<close>.
\<close>

theorem skge3_unmaterialized:
  assumes "buff S = None" and "is_int64 (op_n_rows S)" and "is_int64 (op_n_cols S)"
  shows "(0 \<le> n
          \<and> window_in_operator S (fst (dims_before_op d m opS)) (snd (dims_before_op d m opS))
               ro_s co_s
        \<longrightarrow> lskge3 (submatrix_as_blackbox entry) blas_gemm lay opS opA d n m alpha S ro_s co_s
              A lda beta B ldb
          = lskge3 (submatrix_as_blackbox entry) blas_gemm lay opS opA d n m alpha
              (fill_dense entry S) ro_s co_s A lda beta B ldb)
     \<and> (0 \<le> m'
          \<and> window_in_operator S (fst (dims_before_op n' d' opS')) (snd (dims_before_op n' d' opS'))
               ro_s' co_s'
        \<longrightarrow> rskge3 (submatrix_as_blackbox entry) blas_gemm lay' opA' opS' m' d' n' alpha' A' lda' S
              ro_s' co_s' beta' B' ldb'
          = rskge3 (submatrix_as_blackbox entry) blas_gemm lay' opA' opS' m' d' n' alpha' A' lda'
              (fill_dense entry S) ro_s' co_s' beta' B' ldb')"
proof (intro conjI impI)
  let ?e = "entry (op_dist S) (seed_state S)"
  let ?F = "fill_dense entry S"
  let ?rs = "fst (dims_before_op d m opS)" and ?cs = "snd (dims_before_op d m opS)"
  let ?sub = "\<lparr> layout = layout S, op_n_rows = ?rs, op_n_cols = ?cs,
         buff = Some (dense_buffer (layout S) ?rs ?cs (\<lambda>i j. ?e (ro_s + i) (co_s + j))) \<rparr>"
  assume h: "0 \<le> n \<and> window_in_operator S ?rs ?cs ro_s co_s"
  then have win: "window_in_operator S ?rs ?cs ro_s co_s" and n0: "0 \<le> n" by simp_all
  have F: "buff ?F \<noteq> None" "layout ?F = layout S" "op_n_rows ?F = op_n_rows S"
    "op_n_cols ?F = op_n_cols S"
    "the (buff ?F) = dense_buffer (layout S) (op_n_rows S) (op_n_cols S) ?e"
    by (simp_all add: fill_dense_def)
  have sub: "buff ?sub \<noteq> None" by simp
  have lhs: "lskge3 (submatrix_as_blackbox entry) blas_gemm lay opS opA d n m alpha S ro_s co_s
         A lda beta B ldb = lskge3_bfo blas_gemm lay opS opA d n m alpha ?sub 0 0 A lda beta B ldb"
    using assms(1) by (simp add: lskge3_def submatrix_as_blackbox_def split: prod.splits)
  have w: "op_n_rows S \<ge> ?rs + ro_s" "op_n_cols S \<ge> ?cs + co_s" "0 \<le> ?rs" "0 \<le> ?cs"
    "0 \<le> ro_s" "0 \<le> co_s"
    using win by (auto simp: window_in_operator_def)
  have d0: "0 \<le> d" using w(3,4) by (cases opS) (simp_all add: dims_before_op_def)
  have a: "add64 ?rs ro_s = ?rs + ro_s" "add64 ?rs 0 = ?rs"
    "add64 ?cs co_s = ?cs + co_s" "add64 ?cs 0 = ?cs"
    using add64_in_extent [OF assms(2) w(3) w(5) w(1)] add64_in_extent [OF assms(3) w(4) w(6) w(2)]
    by simp_all
  show "lskge3 (submatrix_as_blackbox entry) blas_gemm lay opS opA d n m alpha S ro_s co_s
         A lda beta B ldb
     = lskge3 (submatrix_as_blackbox entry) blas_gemm lay opS opA d n m alpha
         (fill_dense entry S) ro_s co_s A lda beta B ldb"
  proof (cases "lda < (if lay = ColMajor then fst (dims_before_op m n opA)
                else snd (dims_before_op m n opA)) \<or> ldb < (if lay = ColMajor then d else n)")
    case True
    then show ?thesis
      unfolding lhs lskge3_materialized [OF F(1)] lskge3_bfo_result [OF sub]
        lskge3_bfo_result [OF F(1)] F(2,3,4) a
      using w by auto
  next
    case False
    then have ldb: "0 \<le> ldb" using d0 n0 by (auto split: if_splits)
    have g: "blas_gemm lay (if layout S \<noteq> lay then flip_op opS else opS) opA d n m alpha
               (dense_buffer (layout S) ?rs ?cs (\<lambda>i j. ?e (ro_s + i) (co_s + j))) 0
               (if layout S = ColMajor then ?rs else ?cs) A 0 lda beta B ldb
           = blas_gemm lay (if layout S \<noteq> lay then flip_op opS else opS) opA d n m alpha
               (dense_buffer (layout S) (op_n_rows S) (op_n_cols S) ?e)
               (fst (offset_and_ldim (layout S) (op_n_rows S) (op_n_cols S) ro_s co_s))
               (snd (offset_and_ldim (layout S) (op_n_rows S) (op_n_cols S) ro_s co_s))
               A 0 lda beta B ldb"
      by (rule blas_gemm_cong [OF ldb])
         (simp_all only: op_at_effective op_at_window [OF win])
    from False w show ?thesis
      unfolding lhs lskge3_materialized [OF F(1)] lskge3_bfo_result [OF sub]
        lskge3_bfo_result [OF F(1)] F(2,3,4,5) a
      by (simp add: offset_and_ldim_zero g)
  qed
next
  let ?e = "entry (op_dist S) (seed_state S)"
  let ?F = "fill_dense entry S"
  let ?rs = "fst (dims_before_op n' d' opS')" and ?cs = "snd (dims_before_op n' d' opS')"
  let ?sub = "\<lparr> layout = layout S, op_n_rows = ?rs, op_n_cols = ?cs,
         buff = Some (dense_buffer (layout S) ?rs ?cs (\<lambda>i j. ?e (ro_s' + i) (co_s' + j))) \<rparr>"
  assume h: "0 \<le> m' \<and> window_in_operator S ?rs ?cs ro_s' co_s'"
  then have win: "window_in_operator S ?rs ?cs ro_s' co_s'" and m0: "0 \<le> m'" by simp_all
  have F: "buff ?F \<noteq> None" "layout ?F = layout S" "op_n_rows ?F = op_n_rows S"
    "op_n_cols ?F = op_n_cols S"
    "the (buff ?F) = dense_buffer (layout S) (op_n_rows S) (op_n_cols S) ?e"
    by (simp_all add: fill_dense_def)
  have sub: "buff ?sub \<noteq> None" by simp
  have lhs: "rskge3 (submatrix_as_blackbox entry) blas_gemm lay' opA' opS' m' d' n' alpha' A' lda' S
         ro_s' co_s' beta' B' ldb'
       = rskge3_bfo blas_gemm lay' opA' opS' m' d' n' alpha' A' lda' ?sub 0 0 beta' B' ldb'"
    using assms(1) by (simp add: rskge3_def submatrix_as_blackbox_def split: prod.splits)
  have w: "op_n_rows S \<ge> ?rs + ro_s'" "op_n_cols S \<ge> ?cs + co_s'" "0 \<le> ?rs" "0 \<le> ?cs"
    "0 \<le> ro_s'" "0 \<le> co_s'"
    using win by (auto simp: window_in_operator_def)
  have d0: "0 \<le> d'" using w(3,4) by (cases opS') (simp_all add: dims_before_op_def)
  have a: "add64 ?rs ro_s' = ?rs + ro_s'" "add64 ?rs 0 = ?rs"
    "add64 ?cs co_s' = ?cs + co_s'" "add64 ?cs 0 = ?cs"
    using add64_in_extent [OF assms(2) w(3) w(5) w(1)] add64_in_extent [OF assms(3) w(4) w(6) w(2)]
    by simp_all
  show "rskge3 (submatrix_as_blackbox entry) blas_gemm lay' opA' opS' m' d' n' alpha' A' lda' S
         ro_s' co_s' beta' B' ldb'
     = rskge3 (submatrix_as_blackbox entry) blas_gemm lay' opA' opS' m' d' n' alpha' A' lda'
         (fill_dense entry S) ro_s' co_s' beta' B' ldb'"
  proof (cases "lda' < (if lay' = ColMajor then fst (dims_before_op m' n' opA')
                else snd (dims_before_op m' n' opA')) \<or> ldb' < (if lay' = ColMajor then m' else d')")
    case True
    then show ?thesis
      unfolding lhs rskge3_materialized [OF F(1)] rskge3_bfo_result [OF sub]
        rskge3_bfo_result [OF F(1)] F(2,3,4) a
      using w by auto
  next
    case False
    then have ldb: "0 \<le> ldb'" using d0 m0 by (auto split: if_splits)
    have g: "blas_gemm lay' opA' (if layout S \<noteq> lay' then flip_op opS' else opS') m' d' n' alpha'
               A' 0 lda'
               (dense_buffer (layout S) ?rs ?cs (\<lambda>i j. ?e (ro_s' + i) (co_s' + j))) 0
               (if layout S = ColMajor then ?rs else ?cs) beta' B' ldb'
           = blas_gemm lay' opA' (if layout S \<noteq> lay' then flip_op opS' else opS') m' d' n' alpha'
               A' 0 lda'
               (dense_buffer (layout S) (op_n_rows S) (op_n_cols S) ?e)
               (fst (offset_and_ldim (layout S) (op_n_rows S) (op_n_cols S) ro_s' co_s'))
               (snd (offset_and_ldim (layout S) (op_n_rows S) (op_n_cols S) ro_s' co_s'))
               beta' B' ldb'"
      by (rule blas_gemm_cong [OF ldb])
         (simp_all only: op_at_effective op_at_window [OF win])
    from False w show ?thesis
      unfolding lhs rskge3_materialized [OF F(1)] rskge3_bfo_result [OF sub]
        rskge3_bfo_result [OF F(1)] F(2,3,4,5) a
      by (simp add: offset_and_ldim_zero g)
  qed
qed

text \<open>
  The theorem at a 3 by 2 column-major operator whose entry \<open>(i, j)\<close> is
  \<open>seed + 10 * i + j\<close>, in a row-major multiply: \<open>lskge3\<close> applies the 2 by 2 submatrix
  at row offset 1 to a data matrix of 4 columns, and \<open>rskge3\<close> applies the transpose of the
  2 by 1 submatrix at row offset 1 to a data matrix of 4 rows; 4 exceeds both extents of the
  operator.
\<close>

theorem skge3_unmaterialized_witness:
  "buff \<lparr> layout = ColMajor, op_n_rows = 3, op_n_cols = 2, buff = None :: real list option,
          op_dist = (), seed_state = 4 :: int \<rparr> = None
   \<and> is_int64 3 \<and> is_int64 2 \<and> (0 :: int) \<le> 4
   \<and> window_in_operator \<lparr> layout = ColMajor, op_n_rows = 3, op_n_cols = 2,
          buff = None :: real list option, op_dist = (), seed_state = 4 :: int \<rparr> 2 2 1 0
   \<and> window_in_operator \<lparr> layout = ColMajor, op_n_rows = 3, op_n_cols = 2,
          buff = None :: real list option, op_dist = (), seed_state = 4 :: int \<rparr> 2 1 1 0
   \<and> lskge3 (submatrix_as_blackbox (\<lambda>d s i j. of_int (s + 10 * i + j))) blas_gemm RowMajor
       NoTrans NoTrans 2 4 2 1
       (fill_dense (\<lambda>d s i j. of_int (s + 10 * i + j))
          \<lparr> layout = ColMajor, op_n_rows = 3, op_n_cols = 2, buff = None,
            op_dist = (), seed_state = 4 \<rparr>)
       1 0 [1, 0, 0, 0, 0, 1, 0, 0] 4 0 [0, 0, 0, 0, 0, 0, 0, 0] 4
     = Inr [14, 15, 0, 0, 24, 25, 0, 0 :: real]
   \<and> rskge3 (submatrix_as_blackbox (\<lambda>d s i j. of_int (s + 10 * i + j))) blas_gemm RowMajor
       NoTrans Trans 4 2 1 1 [1, 10, 100, 1000] 1
       (fill_dense (\<lambda>d s i j. of_int (s + 10 * i + j))
          \<lparr> layout = ColMajor, op_n_rows = 3, op_n_cols = 2, buff = None,
            op_dist = (), seed_state = 4 \<rparr>)
       1 0 0 [0, 0, 0, 0, 0, 0, 0, 0] 2
     = Inr [14, 24, 140, 240, 1400, 2400, 14000, 24000 :: real]"
proof -
  let ?S = "\<lparr> layout = ColMajor, op_n_rows = 3, op_n_cols = 2, buff = None :: real list option,
          op_dist = (), seed_state = 4 :: int \<rparr>"
  let ?e = "\<lambda>(d :: unit) (s :: int) i j. (of_int (s + 10 * i + j) :: real)"
  have h1: "buff ?S = None" by simp
  have i3: "is_int64 3" and i2: "is_int64 2" by (simp_all add: is_int64_def)
  have i: "is_int64 (op_n_rows ?S)" "is_int64 (op_n_cols ?S)" using i3 i2 by simp_all
  have n4: "(0 :: int) \<le> 4" by simp
  have w2: "window_in_operator ?S 2 2 1 0" and w3: "window_in_operator ?S 2 1 1 0"
    by (simp_all add: window_in_operator_def)
  have h2: "0 \<le> (4 :: int) \<and> window_in_operator ?S (fst (dims_before_op 2 2 NoTrans))
              (snd (dims_before_op 2 2 NoTrans)) 1 0"
    using w2 by (simp add: dims_before_op_def)
  have h3: "0 \<le> (4 :: int) \<and> window_in_operator ?S (fst (dims_before_op 1 2 Trans))
              (snd (dims_before_op 1 2 Trans)) 1 0"
    using w3 by (simp add: dims_before_op_def)
  have l: "lskge3 (submatrix_as_blackbox ?e) blas_gemm RowMajor NoTrans NoTrans 2 4 2 1 ?S
       1 0 [1, 0, 0, 0, 0, 1, 0, 0] 4 0 [0, 0, 0, 0, 0, 0, 0, 0] 4
       = Inr [14, 15, 0, 0, 24, 25, 0, 0]"
    by code_simp
  have r: "rskge3 (submatrix_as_blackbox ?e) blas_gemm RowMajor NoTrans Trans 4 2 1 1
       [1, 10, 100, 1000] 1 ?S 1 0 0 [0, 0, 0, 0, 0, 0, 0, 0] 2
       = Inr [14, 24, 140, 240, 1400, 2400, 14000, 24000]"
    by code_simp
  note t = skge3_unmaterialized [OF h1 i, where entry = ?e]
  have "lskge3 (submatrix_as_blackbox ?e) blas_gemm RowMajor NoTrans NoTrans 2 4 2 1 ?S
          1 0 [1, 0, 0, 0, 0, 1, 0, 0] 4 0 [0, 0, 0, 0, 0, 0, 0, 0] 4
      = lskge3 (submatrix_as_blackbox ?e) blas_gemm RowMajor NoTrans NoTrans 2 4 2 1
          (fill_dense ?e ?S) 1 0 [1, 0, 0, 0, 0, 1, 0, 0] 4 0 [0, 0, 0, 0, 0, 0, 0, 0] 4"
    by (rule t [THEN conjunct1, rule_format, OF h2])
  with l have l': "lskge3 (submatrix_as_blackbox ?e) blas_gemm RowMajor NoTrans NoTrans 2 4 2 1
          (fill_dense ?e ?S) 1 0 [1, 0, 0, 0, 0, 1, 0, 0] 4 0 [0, 0, 0, 0, 0, 0, 0, 0] 4
      = Inr [14, 15, 0, 0, 24, 25, 0, 0]"
    by simp
  have "rskge3 (submatrix_as_blackbox ?e) blas_gemm RowMajor NoTrans Trans 4 2 1 1
          [1, 10, 100, 1000] 1 ?S 1 0 0 [0, 0, 0, 0, 0, 0, 0, 0] 2
      = rskge3 (submatrix_as_blackbox ?e) blas_gemm RowMajor NoTrans Trans 4 2 1 1
          [1, 10, 100, 1000] 1 (fill_dense ?e ?S) 1 0 0 [0, 0, 0, 0, 0, 0, 0, 0] 2"
    by (rule t [THEN conjunct2, rule_format, OF h3])
  with r have r': "rskge3 (submatrix_as_blackbox ?e) blas_gemm RowMajor NoTrans Trans 4 2 1 1
          [1, 10, 100, 1000] 1 (fill_dense ?e ?S) 1 0 0 [0, 0, 0, 0, 0, 0, 0, 0] 2
      = Inr [14, 24, 140, 240, 1400, 2400, 14000, 24000]"
    by simp
  from h1 i3 i2 n4 w2 w3 l' r' show ?thesis by (intro conjI)
qed

end
